theory Spec2Isabelle
  imports Main "HOL-Library.Word"
begin

unbundle bit_operations_syntax

section \<open>Python values\<close>

text \<open>
  The handlers of the image service receive API Gateway events, parse JSON and keep
  DynamoDB items as Python dictionaries. A Python value is modelled by \<open>pyval\<close>: the
  values \<open>json.loads\<close> produces (floats left out: boto3 refuses to store one), a
  dictionary being the list of its key/value pairs. A string is a list of characters
  (code points below 256), so \<open>length\<close> is Python's \<open>len\<close>.
\<close>

datatype pyval =
    PNone
  | PBool bool
  | PInt int
  | PStr string
  | PList "pyval list"
  | PDict "(string \<times> pyval) list"

type_synonym pydict = "(string \<times> pyval) list"

text \<open>Truthiness, as \<open>if x:\<close> and \<open>not x\<close> test it.\<close>

fun truthy :: "pyval \<Rightarrow> bool" where
  "truthy PNone = False"
| "truthy (PBool b) = b"
| "truthy (PInt i) = (i \<noteq> 0)"
| "truthy (PStr s) = (s \<noteq> [])"
| "truthy (PList xs) = (xs \<noteq> [])"
| "truthy (PDict kvs) = (kvs \<noteq> [])"

text \<open>\<open>d.get(k)\<close> (None when the key is missing), \<open>k in d\<close> and \<open>del d[k]\<close>.\<close>

definition dict_get :: "pydict \<Rightarrow> string \<Rightarrow> pyval" where
  "dict_get d k = (case map_of d k of None \<Rightarrow> PNone | Some v \<Rightarrow> v)"

definition dict_has :: "pydict \<Rightarrow> string \<Rightarrow> bool" where
  "dict_has d k = (map_of d k \<noteq> None)"

definition dict_del :: "pydict \<Rightarrow> string \<Rightarrow> pydict" where
  "dict_del d k = filter (\<lambda>kv. fst kv \<noteq> k) d"

text \<open>\<open>d[k] = v\<close>: the value is replaced in place, a new key goes to the end.\<close>

fun dict_set :: "pydict \<Rightarrow> string \<Rightarrow> pyval \<Rightarrow> pydict" where
  "dict_set [] k v = [(k, v)]"
| "dict_set ((k', v') # d) k v = (if k' = k then (k, v) # d else (k', v') # dict_set d k v)"

text \<open>
  \<open>str(x)\<close> is the string itself on a string; on any other value it is Python's
  rendering of the value, taken as a parameter \<open>str_of\<close>.
\<close>

definition py_str :: "(pyval \<Rightarrow> string) \<Rightarrow> pyval \<Rightarrow> string" where
  "py_str str_of v = (case v of PStr s \<Rightarrow> s | _ \<Rightarrow> str_of v)"

section \<open>String operations\<close>

definition py_isspace :: "char \<Rightarrow> bool" where
  "py_isspace c = ((of_char c :: nat) \<in> {9, 10, 11, 12, 13, 28, 29, 30, 31, 32, 133, 160})"

definition strip :: "string \<Rightarrow> string" where
  "strip s = rev (dropWhile py_isspace (rev (dropWhile py_isspace s)))"

text \<open>\<open>s.split(c)\<close>: always at least one piece.\<close>

fun split_on :: "char \<Rightarrow> string \<Rightarrow> string list" where
  "split_on c [] = [[]]"
| "split_on c (x # xs) =
     (if x = c then [] # split_on c xs
      else (case split_on c xs of [] \<Rightarrow> [[x]] | p # ps \<Rightarrow> (x # p) # ps))"

text \<open>\<open>s.rsplit('.', 1)[-1]\<close>: what follows the last dot, the whole string without one.\<close>

definition after_last_dot :: "string \<Rightarrow> string" where
  "after_last_dot s = rev (takeWhile (\<lambda>c. c \<noteq> CHR ''.'') (rev s))"

definition py_lower_char :: "char \<Rightarrow> char" where
  "py_lower_char c =
     (let n = (of_char c :: nat) in
      if (65 \<le> n \<and> n \<le> 90) \<or> (192 \<le> n \<and> n \<le> 222 \<and> n \<noteq> 215) then char_of (n + 32) else c)"

definition lower :: "string \<Rightarrow> string" where
  "lower s = map py_lower_char s"

text \<open>\<open>sub in s\<close> on strings.\<close>

fun starts_with :: "string \<Rightarrow> string \<Rightarrow> bool" where
  "starts_with [] s = True"
| "starts_with (c # cs) [] = False"
| "starts_with (c # cs) (d # ds) = (c = d \<and> starts_with cs ds)"

fun str_contains :: "string \<Rightarrow> string \<Rightarrow> bool" where
  "str_contains [] sub = (sub = [])"
| "str_contains (c # cs) sub = (starts_with sub (c # cs) \<or> str_contains cs sub)"

text \<open>Comparison of strings by code point, as \<open>>=\<close> and \<open><=\<close> compare them.\<close>

fun str_le :: "string \<Rightarrow> string \<Rightarrow> bool" where
  "str_le [] t = True"
| "str_le (c # cs) [] = False"
| "str_le (c # cs) (d # ds) =
     ((of_char c :: nat) < of_char d \<or> (c = d \<and> str_le cs ds))"

section \<open>Configuration (config.py)\<close>

definition ALLOWED_EXTENSIONS :: "string set" where
  "ALLOWED_EXTENSIONS = {''png'', ''jpg'', ''jpeg'', ''gif'', ''webp''}"

definition MAX_IMAGE_SIZE_MB :: nat where
  "MAX_IMAGE_SIZE_MB = 10"

definition MAX_IMAGE_SIZE_BYTES :: nat where
  "MAX_IMAGE_SIZE_BYTES = MAX_IMAGE_SIZE_MB * 1024 * 1024"

definition DEFAULT_PAGE_SIZE :: int where
  "DEFAULT_PAGE_SIZE = 20"

definition MAX_PAGE_SIZE :: int where
  "MAX_PAGE_SIZE = 100"

section \<open>Validators (utils/validators.py)\<close>

text \<open>
  Each validator returns the pair \<open>(is_valid, error_message)\<close>. The loop over the tags
  stops at the first tag that is not a string of at most 50 characters.
\<close>

fun check_tags :: "pyval list \<Rightarrow> string option" where
  "check_tags [] = None"
| "check_tags (tag # tags) =
     (if (case tag of PStr s \<Rightarrow> length s > 50 | _ \<Rightarrow> True)
      then Some ''Each tag must be a string of 50 characters or less''
      else check_tags tags)"

definition validate_metadata :: "(pyval \<Rightarrow> string) \<Rightarrow> pyval \<Rightarrow> bool \<times> string option" where
  "validate_metadata str_of metadata =
     (if \<not> truthy metadata then (True, None)
      else case metadata of
        PDict d \<Rightarrow>
          if dict_has d ''title'' \<and> length (py_str str_of (dict_get d ''title'')) > 256
          then (False, Some ''Title must be 256 characters or less'')
          else if dict_has d ''description''
                  \<and> length (py_str str_of (dict_get d ''description'')) > 2048
          then (False, Some ''Description must be 2048 characters or less'')
          else if dict_has d ''tags'' then
            (case dict_get d ''tags'' of
               PList tags \<Rightarrow>
                 if length tags > 20 then (False, Some ''Maximum 20 tags allowed'')
                 else (case check_tags tags of
                         Some msg \<Rightarrow> (False, Some msg)
                       | None \<Rightarrow> (True, None))
             | _ \<Rightarrow> (False, Some ''Tags must be a list''))
          else (True, None)
      | _ \<Rightarrow> (False, Some ''Metadata must be a dictionary''))"

definition validate_image_id :: "pyval \<Rightarrow> bool \<times> string option" where
  "validate_image_id image_id =
     (if \<not> truthy image_id then (False, Some ''Image ID is required'')
      else case image_id of
        PStr s \<Rightarrow> if length s > 128 then (False, Some ''Image ID is too long'') else (True, None)
      | _ \<Rightarrow> (False, Some ''Image ID must be a string''))"

definition validate_user_id :: "pyval \<Rightarrow> bool \<times> string option" where
  "validate_user_id user_id =
     (if \<not> truthy user_id then (False, Some ''User ID is required'')
      else case user_id of
        PStr s \<Rightarrow> if length s > 128 then (False, Some ''User ID is too long'') else (True, None)
      | _ \<Rightarrow> (False, Some ''User ID must be a string''))"

text \<open>
  The name of a value's type, as Python's error messages print it, and the errors the
  handlers can meet on a value of the wrong type. An exception is its message: every
  handler turns one into the text of a 500 response.
\<close>

fun type_name :: "pyval \<Rightarrow> string" where
  "type_name PNone = ''NoneType''"
| "type_name (PBool b) = ''bool''"
| "type_name (PInt i) = ''int''"
| "type_name (PStr s) = ''str''"
| "type_name (PList xs) = ''list''"
| "type_name (PDict d) = ''dict''"

definition attribute_error :: "pyval \<Rightarrow> string \<Rightarrow> string" where
  "attribute_error v attr =
     [CHR 39] @ type_name v @ [CHR 39] @ '' object has no attribute '' @ [CHR 39] @ attr @ [CHR 39]"

section \<open>Base64 (the standard library's base64 and binascii)\<close>

type_synonym byte = "8 word"

definition table_b2a_base64 :: "byte \<Rightarrow> char" where
  "table_b2a_base64 s =
     (let n = unat s in
      if n < 26 then char_of (n + 65)
      else if n < 52 then char_of (n + 71)
      else if n < 62 then char_of (n - 4)
      else if n = 62 then CHR ''+''
      else CHR ''/'')"

definition table_a2b_base64 :: "char \<Rightarrow> byte option" where
  "table_a2b_base64 c =
     (let n = (of_char c :: nat) in
      if 65 \<le> n \<and> n \<le> 90 then Some (of_nat (n - 65))
      else if 97 \<le> n \<and> n \<le> 122 then Some (of_nat (n - 71))
      else if 48 \<le> n \<and> n \<le> 57 then Some (of_nat (n + 4))
      else if n = 43 then Some 62
      else if n = 47 then Some 63
      else None)"

text \<open>\<open>base64.b64encode\<close>: three bytes become four characters, the tail is padded.\<close>

fun b64encode :: "byte list \<Rightarrow> string" where
  "b64encode [] = []"
| "b64encode [a] =
     [table_b2a_base64 (drop_bit 2 a), table_b2a_base64 (push_bit 4 (a AND 3)),
      CHR ''='', CHR ''='']"
| "b64encode [a, b] =
     [table_b2a_base64 (drop_bit 2 a),
      table_b2a_base64 (push_bit 4 (a AND 3) OR drop_bit 4 b),
      table_b2a_base64 (push_bit 2 (b AND 15)), CHR ''='']"
| "b64encode (a # b # c # rest) =
     [table_b2a_base64 (drop_bit 2 a),
      table_b2a_base64 (push_bit 4 (a AND 3) OR drop_bit 4 b),
      table_b2a_base64 (push_bit 2 (b AND 15) OR drop_bit 6 c),
      table_b2a_base64 (c AND 63)] @ b64encode rest"

fun digits_of :: "nat \<Rightarrow> string" where
  "digits_of n = (if n < 10 then [char_of (n + 48)] else digits_of (n div 10) @ [char_of (n mod 10 + 48)])"

text \<open>
  \<open>binascii.a2b_base64\<close> as \<open>base64.b64decode\<close> calls it (no validation): a character
  outside the alphabet is skipped, padding that completes a quad ends the decoding, and
  an incomplete quad at the end of the input is an error. The state is the position in
  the quad, the bits left over, the pad characters seen and the bytes written.
\<close>

fun a2b_base64 :: "string \<Rightarrow> nat \<Rightarrow> byte \<Rightarrow> nat \<Rightarrow> byte list \<Rightarrow> string + byte list" where
  "a2b_base64 [] quad_pos leftchar pads out =
     (if quad_pos \<noteq> 0 then
        (if quad_pos = 1
         then Inl (''Invalid base64-encoded string: number of data characters (''
                   @ digits_of (length out div 3 * 4 + 1)
                   @ '') cannot be 1 more than a multiple of 4'')
         else Inl ''Incorrect padding'')
      else Inr out)"
| "a2b_base64 (this_ch # rest) quad_pos leftchar pads out =
     (if this_ch = CHR ''='' then
        (if quad_pos \<ge> 2 \<and> quad_pos + (pads + 1) \<ge> 4 then Inr out
         else a2b_base64 rest quad_pos leftchar (if quad_pos \<ge> 2 then pads + 1 else pads) out)
      else case table_a2b_base64 this_ch of
        None \<Rightarrow> a2b_base64 rest quad_pos leftchar pads out
      | Some v \<Rightarrow>
          (if quad_pos = 0 then a2b_base64 rest 1 v 0 out
           else if quad_pos = 1 then
             a2b_base64 rest 2 (v AND 15) 0 (out @ [push_bit 2 leftchar OR drop_bit 4 v])
           else if quad_pos = 2 then
             a2b_base64 rest 3 (v AND 3) 0 (out @ [push_bit 4 leftchar OR drop_bit 2 v])
           else a2b_base64 rest 0 0 0 (out @ [push_bit 6 leftchar OR v])))"

text \<open>
  \<open>base64.b64decode(s)\<close>: a string is encoded to ASCII first (a ValueError when it has a
  character beyond 127), any other value is a TypeError.
\<close>

definition b64decode :: "pyval \<Rightarrow> string + byte list" where
  "b64decode s =
     (case s of
        PStr cs \<Rightarrow>
          if list_all (\<lambda>c. (of_char c :: nat) < 128) cs then a2b_base64 cs 0 0 0 []
          else Inl ''string argument should contain only ASCII characters''
      | _ \<Rightarrow> Inl (''argument should be a bytes-like object or ASCII string, not ''
                 @ [CHR 39] @ type_name s @ [CHR 39]))"

text \<open>
  \<open>validate_image_file\<close>. The test \<open>'.' in filename\<close> raises on a number and
  \<open>filename.rsplit\<close> on anything but a string: the result is \<open>Inl\<close> the exception, which
  the caller's handler catches. \<open>ALLOWED_EXTENSIONS\<close> is a set: the message joins its
  members in the order in which Python iterates it, the parameter \<open>iteration\<close>.
\<close>

fun join_comma :: "string list \<Rightarrow> string" where
  "join_comma [] = []"
| "join_comma [x] = x"
| "join_comma (x # y # ys) = x @ '', '' @ join_comma (y # ys)"

fun contains_dot :: "pyval \<Rightarrow> string + bool" where
  "contains_dot (PStr s) = Inr (CHR ''.'' \<in> set s)"
| "contains_dot (PList xs) = Inr (PStr ''.'' \<in> set xs)"
| "contains_dot (PDict d) = Inr (dict_has d ''.'')"
| "contains_dot v = Inl (''argument of type '' @ [CHR 39] @ type_name v @ [CHR 39] @ '' is not iterable'')"

definition rsplit_ext :: "pyval \<Rightarrow> string + string" where
  "rsplit_ext filename =
     (case filename of
        PStr s \<Rightarrow> Inr (lower (after_last_dot s))
      | _ \<Rightarrow> Inl (attribute_error filename ''rsplit''))"

definition validate_image_file ::
  "string list \<Rightarrow> pyval \<Rightarrow> pyval \<Rightarrow> string + (bool \<times> string option)" where
  "validate_image_file iteration image_data filename =
     (if \<not> truthy image_data then Inr (False, Some ''Image data is required'')
      else if \<not> truthy filename then Inr (False, Some ''Filename is required'')
      else case contains_dot filename of
        Inl exn \<Rightarrow> Inl exn
      | Inr has_dot \<Rightarrow>
          (case (if has_dot then rsplit_ext filename else Inr []) of
             Inl exn \<Rightarrow> Inl exn
           | Inr extension \<Rightarrow>
               if extension \<notin> ALLOWED_EXTENSIONS
               then Inr (False, Some (''File extension '' @ [CHR 39] @ extension @ [CHR 39]
                                      @ '' not allowed. Allowed: '' @ join_comma iteration))
               else (case b64decode image_data of
                       Inl exn \<Rightarrow> Inr (False, Some (''Invalid base64 image data: '' @ exn))
                     | Inr decoded_data \<Rightarrow>
                         if length decoded_data > MAX_IMAGE_SIZE_BYTES
                         then Inr (False, Some (''Image size exceeds maximum allowed size of ''
                                    @ digits_of (MAX_IMAGE_SIZE_BYTES div (1024 * 1024)) @ ''MB''))
                         else Inr (True, None))))"

section \<open>Responses (utils/response_helpers.py)\<close>

text \<open>
  A response keeps its body as the value that \<open>json.dumps\<close> serialises. No handler
  passes extra headers, so \<open>create_response\<close> returns the default ones.
\<close>

record response =
  statusCode :: int
  headers :: "(string \<times> string) list"
  body :: pyval

definition default_headers :: "(string \<times> string) list" where
  "default_headers =
     [(''Content-Type'', ''application/json''),
      (''Access-Control-Allow-Origin'', ''*''),
      (''Access-Control-Allow-Headers'', ''Content-Type,X-Amz-Date,Authorization,X-Api-Key''),
      (''Access-Control-Allow-Methods'', ''GET,POST,PUT,DELETE,OPTIONS'')]"

definition create_response :: "int \<Rightarrow> pyval \<Rightarrow> response" where
  "create_response status_code b =
     \<lparr>statusCode = status_code, headers = default_headers, body = b\<rparr>"

definition opt_str :: "string option \<Rightarrow> pyval" where
  "opt_str x = (case x of None \<Rightarrow> PNone | Some s \<Rightarrow> PStr s)"

definition create_error_response :: "int \<Rightarrow> string option \<Rightarrow> string option \<Rightarrow> response" where
  "create_error_response status_code error_message error_code =
     create_response status_code
       (PDict [(''error'',
          PDict ((''message'', opt_str error_message)
                 # (if truthy (opt_str error_code) then [(''code'', opt_str error_code)] else [])))])"

definition create_success_response :: "pyval \<Rightarrow> string option \<Rightarrow> int \<Rightarrow> response" where
  "create_success_response data message status_code =
     create_response status_code
       (PDict ((''data'', data)
               # (if truthy (opt_str message) then [(''message'', opt_str message)] else [])))"

definition internal_error :: "string \<Rightarrow> response" where
  "internal_error exn =
     create_error_response 500 (Some (''Internal server error: '' @ exn)) (Some ''INTERNAL_ERROR'')"

section \<open>The two stores and the environment\<close>

text \<open>
  The handlers work on an object store (S3) and a table of items keyed by \<open>image_id\<close>
  (DynamoDB). The state \<open>world\<close> holds both, with the log of the calls made to them, in
  order. The table is the list of its items in the order a scan visits them.

  What the handlers cannot decide is in \<open>env\<close>: whether a call to a store raises (and
  the exception's text), the JSON parser and printer, Python's \<open>str\<close> of a value, the
  text of the ValueError that \<open>int\<close> raises on a string, the order in which the set of
  allowed extensions is iterated, the signed URL of a key, and the identifier and the
  time an upload draws.

  \<open>json.loads\<close> returns a value or raises: a JSONDecodeError, another ValueError (an
  integer literal with more digits than the interpreter converts) or any other exception
  (a RecursionError on deep nesting). The handlers treat the three differently.
\<close>

datatype 'a loads_result =
    Loaded 'a
  | JSONDecodeError
  | ValueError string
  | OtherException string

datatype op =
    DbGetItem | DbPutItem | DbDeleteItem | DbScan
  | S3PutObject | S3GetObject | S3DeleteObject | S3Presign

record s3_object =
  Body :: "byte list"
  ContentType :: string

record world =
  bucket :: "string \<rightharpoonup> s3_object"
  table :: "pydict list"
  calls :: "op list"

record env =
  raises :: "op \<Rightarrow> string option"
  json_loads :: "string \<Rightarrow> pyval loads_result"
  json_dumps :: "pyval \<Rightarrow> string"
  str_of :: "pyval \<Rightarrow> string"
  int_error :: "string \<Rightarrow> string"
  set_iteration :: "string list"
  presigned_url :: "string \<Rightarrow> string"
  uuid4 :: string
  utcnow :: string

definition called :: "op \<Rightarrow> world \<Rightarrow> world" where
  "called c w = w\<lparr>calls := calls w @ [c]\<rparr>"

definition has_key :: "string \<Rightarrow> pydict \<Rightarrow> bool" where
  "has_key k item = (map_of item ''image_id'' = Some (PStr k))"

definition db_get_item :: "env \<Rightarrow> string \<Rightarrow> world \<Rightarrow> (string + pydict option) \<times> world" where
  "db_get_item e k w =
     (case raises e DbGetItem of
        Some exn \<Rightarrow> (Inl exn, called DbGetItem w)
      | None \<Rightarrow> (Inr (find (has_key k) (table w)), called DbGetItem w))"

definition db_delete_item :: "env \<Rightarrow> string \<Rightarrow> world \<Rightarrow> (string + unit) \<times> world" where
  "db_delete_item e k w =
     (case raises e DbDeleteItem of
        Some exn \<Rightarrow> (Inl exn, called DbDeleteItem w)
      | None \<Rightarrow>
          (Inr (), called DbDeleteItem (w\<lparr>table := filter (\<lambda>item. \<not> has_key k item) (table w)\<rparr>)))"

definition db_put_item :: "env \<Rightarrow> pydict \<Rightarrow> world \<Rightarrow> (string + unit) \<times> world" where
  "db_put_item e item w =
     (case raises e DbPutItem of
        Some exn \<Rightarrow> (Inl exn, called DbPutItem w)
      | None \<Rightarrow>
          (case dict_get item ''image_id'' of
             PStr k \<Rightarrow>
               (Inr (), called DbPutItem
                  (w\<lparr>table := filter (\<lambda>old. \<not> has_key k old) (table w) @ [item]\<rparr>))
           | _ \<Rightarrow> (Inl ''One or more parameter values were invalid: missing or mistyped key image_id'',
                   called DbPutItem w)))"

text \<open>
  S3. A key that is not a string fails the client's parameter validation;
  \<open>get_object\<close> on a key the bucket does not have raises \<open>NoSuchKey\<close>.
\<close>

datatype s3_error = NoSuchKey | Raised string

definition invalid_key :: string where
  "invalid_key = ''Parameter validation failed: Invalid type for parameter Key''"

definition s3_put_object :: "env \<Rightarrow> string \<Rightarrow> byte list \<Rightarrow> string \<Rightarrow> world \<Rightarrow> (string + unit) \<times> world" where
  "s3_put_object e k data content_type w =
     (case raises e S3PutObject of
        Some exn \<Rightarrow> (Inl exn, called S3PutObject w)
      | None \<Rightarrow>
          (Inr (), called S3PutObject
             (w\<lparr>bucket := (bucket w)(k \<mapsto> \<lparr>Body = data, ContentType = content_type\<rparr>)\<rparr>)))"

definition s3_get_object :: "env \<Rightarrow> pyval \<Rightarrow> world \<Rightarrow> (s3_error + s3_object) \<times> world" where
  "s3_get_object e key w =
     (case raises e S3GetObject of
        Some exn \<Rightarrow> (Inl (Raised exn), called S3GetObject w)
      | None \<Rightarrow>
          (case key of
             PStr k \<Rightarrow>
               (case bucket w k of
                  None \<Rightarrow> (Inl NoSuchKey, called S3GetObject w)
                | Some obj \<Rightarrow> (Inr obj, called S3GetObject w))
           | _ \<Rightarrow> (Inl (Raised invalid_key), called S3GetObject w)))"

definition s3_delete_object :: "env \<Rightarrow> pyval \<Rightarrow> world \<Rightarrow> (string + unit) \<times> world" where
  "s3_delete_object e key w =
     (case raises e S3DeleteObject of
        Some exn \<Rightarrow> (Inl exn, called S3DeleteObject w)
      | None \<Rightarrow>
          (case key of
             PStr k \<Rightarrow> (Inr (), called S3DeleteObject (w\<lparr>bucket := (bucket w)(k := None)\<rparr>))
           | _ \<Rightarrow> (Inl invalid_key, called S3DeleteObject w)))"

definition generate_presigned_url :: "env \<Rightarrow> pyval \<Rightarrow> world \<Rightarrow> (string + string) \<times> world" where
  "generate_presigned_url e key w =
     (case raises e S3Presign of
        Some exn \<Rightarrow> (Inl exn, called S3Presign w)
      | None \<Rightarrow>
          (case key of
             PStr k \<Rightarrow> (Inr (presigned_url e k), called S3Presign w)
           | _ \<Rightarrow> (Inl invalid_key, called S3Presign w)))"

section \<open>Events\<close>

text \<open>
  An API Gateway event: the path and query parameters are dictionaries of strings or
  null; \<open>event_body\<close> is \<open>None\<close> when the event has no \<open>body\<close> key.
\<close>

record event =
  pathParameters :: "(string \<rightharpoonup> string) option"
  queryStringParameters :: "(string \<rightharpoonup> string) option"
  event_body :: "pyval option"

text \<open>\<open>event.get(name) or {}\<close> and \<open>params.get(k)\<close>.\<close>

definition or_empty :: "(string \<rightharpoonup> string) option \<Rightarrow> (string \<rightharpoonup> string)" where
  "or_empty p = (case p of None \<Rightarrow> Map.empty | Some d \<Rightarrow> d)"

definition param_get :: "(string \<rightharpoonup> string) \<Rightarrow> string \<Rightarrow> pyval" where
  "param_get params k = opt_str (params k)"

section \<open>Listing (handlers/list_images.py)\<close>

text \<open>
  \<open>int(s)\<close> on a string: white space around the number is dropped (the ASCII white
  space and, beyond ASCII, the characters 133 and 160; not the separators 28 to 31 that
  \<open>str.strip\<close> removes), a sign may come first, and the digits may be separated by single
  underscores. A number of more than 4300 digits is refused. \<open>None\<close> is the ValueError.
\<close>

definition int_isspace :: "char \<Rightarrow> bool" where
  "int_isspace c = ((of_char c :: nat) \<in> {9, 10, 11, 12, 13, 32, 133, 160})"

definition int_strip :: "string \<Rightarrow> string" where
  "int_strip s = rev (dropWhile int_isspace (rev (dropWhile int_isspace s)))"

definition is_digit :: "char \<Rightarrow> bool" where
  "is_digit c = (48 \<le> (of_char c :: nat) \<and> (of_char c :: nat) \<le> 57)"

fun parse_digits :: "string \<Rightarrow> int \<Rightarrow> bool \<Rightarrow> int option" where
  "parse_digits [] acc after_digit = (if after_digit then Some acc else None)"
| "parse_digits (c # cs) acc after_digit =
     (if is_digit c then parse_digits cs (acc * 10 + (int (of_char c) - 48)) True
      else if c = CHR ''_'' \<and> after_digit then parse_digits cs acc False
      else None)"

definition max_str_digits :: nat where
  "max_str_digits = 4300"

definition py_int :: "string \<Rightarrow> int option" where
  "py_int s =
     (if length (filter is_digit s) > max_str_digits then None
      else case int_strip s of
        [] \<Rightarrow> None
      | c # cs \<Rightarrow>
          if c = CHR ''-'' then map_option uminus (parse_digits cs 0 False)
          else if c = CHR ''+'' then parse_digits cs 0 False
          else parse_digits (c # cs) 0 False)"

text \<open>\<open>min(int(params.get('limit', DEFAULT_PAGE_SIZE)), MAX_PAGE_SIZE)\<close>.\<close>

definition page_limit :: "env \<Rightarrow> (string \<rightharpoonup> string) \<Rightarrow> string + int" where
  "page_limit e params =
     (case params ''limit'' of
        None \<Rightarrow> Inr (min DEFAULT_PAGE_SIZE MAX_PAGE_SIZE)
      | Some s \<Rightarrow>
          (case py_int s of
             None \<Rightarrow> Inl (int_error e s)
           | Some n \<Rightarrow> Inr (min n MAX_PAGE_SIZE)))"

text \<open>
  The conditions of \<open>boto3.dynamodb.conditions\<close> that the handler builds, and what they
  mean on an item: \<open>eq\<close> is equality of the attribute's value, \<open>contains\<close> is a substring
  test on a string attribute and a membership test on a list attribute, \<open>gte\<close> and
  \<open>lte\<close> compare strings by code point and numbers by value. A condition on an
  attribute the item does not have is false.
\<close>

datatype cond =
    Eq string pyval
  | Contains string pyval
  | Gte string pyval
  | Lte string pyval
  | And cond cond
  | Or cond cond

fun attr_contains :: "pyval option \<Rightarrow> pyval \<Rightarrow> bool" where
  "attr_contains (Some (PStr s)) (PStr sub) = str_contains s sub"
| "attr_contains (Some (PList xs)) v = (v \<in> set xs)"
| "attr_contains a v = False"

fun attr_le :: "pyval \<Rightarrow> pyval \<Rightarrow> bool" where
  "attr_le (PStr s) (PStr t) = str_le s t"
| "attr_le (PInt i) (PInt j) = (i \<le> j)"
| "attr_le a b = False"

fun eval_cond :: "cond \<Rightarrow> pydict \<Rightarrow> bool" where
  "eval_cond (Eq a v) item = (map_of item a = Some v)"
| "eval_cond (Contains a v) item = attr_contains (map_of item a) v"
| "eval_cond (Gte a v) item = (case map_of item a of None \<Rightarrow> False | Some x \<Rightarrow> attr_le v x)"
| "eval_cond (Lte a v) item = (case map_of item a of None \<Rightarrow> False | Some x \<Rightarrow> attr_le x v)"
| "eval_cond (And c1 c2) item = (eval_cond c1 item \<and> eval_cond c2 item)"
| "eval_cond (Or c1 c2) item = (eval_cond c1 item \<or> eval_cond c2 item)"

text \<open>
  The filter expression grows in a variable that starts as None:
  \<open>fe = c if not fe else fe & c\<close>, and \<open>|\<close> likewise inside the loop over the tags.
\<close>

definition and_with :: "cond option \<Rightarrow> cond \<Rightarrow> cond option" where
  "and_with fe c = (case fe of None \<Rightarrow> Some c | Some f \<Rightarrow> Some (And f c))"

definition or_with :: "cond option \<Rightarrow> cond \<Rightarrow> cond option" where
  "or_with fe c = (case fe of None \<Rightarrow> Some c | Some f \<Rightarrow> Some (Or f c))"

fun tags_loop :: "string list \<Rightarrow> cond option \<Rightarrow> cond option" where
  "tags_loop [] tags_condition = tags_condition"
| "tags_loop (tag # tags) tags_condition =
     tags_loop tags (or_with tags_condition (Contains ''tags'' (PStr tag)))"

definition tags_list :: "string \<Rightarrow> string list" where
  "tags_list tags_filter = map strip (split_on CHR '','' tags_filter)"

text \<open>
  One \<open>if x: fe = c if not fe else fe & c\<close> of the handler, and its block for the tags.
\<close>

definition add_criterion :: "pyval \<Rightarrow> cond \<Rightarrow> cond option \<Rightarrow> cond option" where
  "add_criterion v c fe = (if truthy v then and_with fe c else fe)"

definition add_tags :: "pyval \<Rightarrow> cond option \<Rightarrow> cond option" where
  "add_tags tags_filter fe =
     (if truthy tags_filter then
        (case tags_filter of
           PStr s \<Rightarrow>
             (case tags_loop (tags_list s) None of
                None \<Rightarrow> fe
              | Some tags_condition \<Rightarrow> and_with fe tags_condition)
         | _ \<Rightarrow> fe)
      else fe)"

definition build_filter :: "(string \<rightharpoonup> string) \<Rightarrow> cond option" where
  "build_filter params =
     (let user_id = param_get params ''user_id'';
          title_filter = param_get params ''title'';
          tags_filter = param_get params ''tags'';
          location_filter = param_get params ''location'';
          created_after = param_get params ''created_after'';
          created_before = param_get params ''created_before'';
          fe0 = None;
          fe1 = (if truthy user_id then Some (Eq ''user_id'' user_id) else fe0);
          fe2 = add_criterion title_filter (Contains ''title'' title_filter) fe1;
          fe3 = add_tags tags_filter fe2;
          fe4 = add_criterion location_filter (Contains ''location'' location_filter) fe3;
          fe5 = add_criterion created_after (Gte ''created_at'' created_after) fe4;
          fe6 = add_criterion created_before (Lte ''created_at'' created_before) fe5
      in fe6)"

text \<open>A scan without a filter expression returns every item it evaluates.\<close>

definition accepts :: "cond option \<Rightarrow> pydict \<Rightarrow> bool" where
  "accepts fe item = (case fe of None \<Rightarrow> True | Some c \<Rightarrow> eval_cond c item)"

text \<open>
  \<open>table.scan(Limit, FilterExpression, ExclusiveStartKey)\<close>: the store refuses a limit
  below 1 and a start key that is not \<open>{'image_id': <string>}\<close>; it evaluates at most
  \<open>Limit\<close> items after the start key, returns those the filter accepts, counts the
  evaluated ones, and reports the last evaluated key when it stopped at the limit.
\<close>

record scan_result =
  Items :: "pydict list"
  ScannedCount :: nat
  LastEvaluatedKey :: "pydict option"

definition start_key :: "pyval \<Rightarrow> string option" where
  "start_key v =
     (case v of
        PDict [(a, PStr k)] \<Rightarrow> if a = ''image_id'' then Some k else None
      | _ \<Rightarrow> None)"

definition scan_from :: "pydict list \<Rightarrow> int \<Rightarrow> cond option \<Rightarrow> scan_result" where
  "scan_from remaining limit fe =
     (let evaluated = take (nat limit) remaining in
      \<lparr>Items = filter (accepts fe) evaluated,
       ScannedCount = length evaluated,
       LastEvaluatedKey =
         (if evaluated \<noteq> [] \<and> length evaluated = nat limit
          then Some [(''image_id'', dict_get (last evaluated) ''image_id'')] else None)\<rparr>)"

definition db_scan :: "env \<Rightarrow> int \<Rightarrow> cond option \<Rightarrow> pyval option \<Rightarrow> world \<Rightarrow> (string + scan_result) \<times> world" where
  "db_scan e limit fe start w =
     (case raises e DbScan of
        Some exn \<Rightarrow> (Inl exn, called DbScan w)
      | None \<Rightarrow>
          if limit < 1
          then (Inl ''Parameter validation failed: Invalid value for parameter Limit'', called DbScan w)
          else (case start of
                  None \<Rightarrow> (Inr (scan_from (table w) limit fe), called DbScan w)
                | Some v \<Rightarrow>
                    (case start_key v of
                       None \<Rightarrow> (Inl ''The provided starting key is invalid'', called DbScan w)
                     | Some k \<Rightarrow>
                         (Inr (scan_from (drop 1 (dropWhile (\<lambda>item. \<not> has_key k item) (table w))) limit fe),
                          called DbScan w))))"

text \<open>
  The cursor: an absent or empty \<open>last_evaluated_key\<close> sets no start key; otherwise the
  string goes through \<open>json.loads\<close>, whose exceptions are kept.
\<close>

definition exclusive_start_key :: "env \<Rightarrow> pyval \<Rightarrow> pyval option loads_result" where
  "exclusive_start_key e last_key =
     (if truthy last_key then
        (case last_key of
           PStr s \<Rightarrow>
             (case json_loads e s of
                Loaded v \<Rightarrow> Loaded (Some v)
              | JSONDecodeError \<Rightarrow> JSONDecodeError
              | ValueError exn \<Rightarrow> ValueError exn
              | OtherException exn \<Rightarrow> OtherException exn)
         | _ \<Rightarrow> Loaded None)
      else Loaded None)"

definition strip_s3_key :: "pydict \<Rightarrow> pydict" where
  "strip_s3_key item = (if dict_has item ''s3_key'' then dict_del item ''s3_key'' else item)"

definition list_result :: "env \<Rightarrow> scan_result \<Rightarrow> pyval" where
  "list_result e res =
     (let items = map strip_s3_key (Items res) in
      PDict ([(''images'', PList (map PDict items)),
              (''count'', PInt (int (length items))),
              (''scanned_count'', PInt (int (ScannedCount res)))]
             @ (case LastEvaluatedKey res of
                  Some k \<Rightarrow> [(''last_evaluated_key'', PStr (json_dumps e (PDict k))),
                             (''has_more'', PBool True)]
                | None \<Rightarrow> [(''has_more'', PBool False)])))"

text \<open>
  The handler. A ValueError, of \<open>int\<close> or of the JSON parser, reaches the clause
  \<open>except ValueError\<close>; the JSONDecodeError of the cursor is caught where it is raised.
\<close>

definition list_images :: "env \<Rightarrow> event \<Rightarrow> world \<Rightarrow> response \<times> world" where
  "list_images e ev w =
     (let params = or_empty (queryStringParameters ev) in
      case page_limit e params of
        Inl exn \<Rightarrow>
          (create_error_response 400 (Some (''Invalid parameter value: '' @ exn))
             (Some ''INVALID_PARAMETER''), w)
      | Inr limit \<Rightarrow>
          (let last_key = param_get params ''last_evaluated_key'';
               filter_expression = build_filter params
           in case exclusive_start_key e last_key of
                JSONDecodeError \<Rightarrow>
                  (create_error_response 400 (Some ''Invalid last_evaluated_key format'')
                     (Some ''INVALID_PAGINATION''), w)
              | ValueError exn \<Rightarrow>
                  (create_error_response 400 (Some (''Invalid parameter value: '' @ exn))
                     (Some ''INVALID_PARAMETER''), w)
              | OtherException exn \<Rightarrow> (internal_error exn, w)
              | Loaded start \<Rightarrow>
                  (case db_scan e limit filter_expression start w of
                     (Inl exn, w') \<Rightarrow> (internal_error exn, w')
                   | (Inr res, w') \<Rightarrow>
                       (create_success_response (list_result e res) None 200, w'))))"

section \<open>Deleting (handlers/delete_image.py)\<close>

text \<open>
  The failure of \<open>delete_object\<close> is caught and printed; the world it leaves is the one
  \<open>delete_item\<close> then works on. Every other exception ends in the 500 response.
\<close>

definition delete_image :: "env \<Rightarrow> event \<Rightarrow> world \<Rightarrow> response \<times> world" where
  "delete_image e ev w =
     (let path_params = or_empty (pathParameters ev);
          image_id = param_get path_params ''image_id''
      in case validate_image_id image_id of
        (is_valid, error_msg) \<Rightarrow>
          if \<not> is_valid
          then (create_error_response 400 error_msg (Some ''INVALID_IMAGE_ID''), w)
          else
            (let query_params = or_empty (queryStringParameters ev);
                 user_id = param_get query_params ''user_id''
             in case db_get_item e (py_str (str_of e) image_id) w of
                  (Inl exn, w1) \<Rightarrow> (internal_error exn, w1)
                | (Inr None, w1) \<Rightarrow>
                    (create_error_response 404 (Some ''Image not found'')
                       (Some ''IMAGE_NOT_FOUND''), w1)
                | (Inr (Some item), w1) \<Rightarrow>
                    if truthy user_id \<and> dict_get item ''user_id'' \<noteq> user_id
                    then (create_error_response 403 (Some ''Not authorized to delete this image'')
                            (Some ''FORBIDDEN''), w1)
                    else
                      (let s3_key = dict_get item ''s3_key'' in
                       case s3_delete_object e s3_key w1 of
                         (r, w2) \<Rightarrow>
                           (case db_delete_item e (py_str (str_of e) image_id) w2 of
                              (Inl exn, w3) \<Rightarrow> (internal_error exn, w3)
                            | (Inr u, w3) \<Rightarrow>
                                (create_success_response
                                   (PDict [(''image_id'', image_id), (''deleted'', PBool True)])
                                   (Some ''Image deleted successfully'') 200, w3)))))"

section \<open>Reading (handlers/get_image.py)\<close>

definition metadata_keys :: "string list" where
  "metadata_keys =
     [''image_id'', ''user_id'', ''filename'', ''content_type'', ''file_size'', ''title'',
      ''description'', ''tags'', ''location'', ''created_at'', ''updated_at'']"

text \<open>The metadata of the response: the listed attributes, those that are None removed.\<close>

definition metadata_of :: "pydict \<Rightarrow> pydict" where
  "metadata_of item =
     filter (\<lambda>kv. snd kv \<noteq> PNone) (map (\<lambda>k. (k, dict_get item k)) metadata_keys)"

definition get_image :: "env \<Rightarrow> event \<Rightarrow> world \<Rightarrow> response \<times> world" where
  "get_image e ev w =
     (let path_params = or_empty (pathParameters ev);
          image_id = param_get path_params ''image_id''
      in case validate_image_id image_id of
        (is_valid, error_msg) \<Rightarrow>
          if \<not> is_valid
          then (create_error_response 400 error_msg (Some ''INVALID_IMAGE_ID''), w)
          else
            (let query_params = or_empty (queryStringParameters ev);
                 download = (lower (case query_params ''download'' of
                                      None \<Rightarrow> ''false'' | Some s \<Rightarrow> s) = ''true'')
             in case db_get_item e (py_str (str_of e) image_id) w of
                  (Inl exn, w1) \<Rightarrow> (internal_error exn, w1)
                | (Inr None, w1) \<Rightarrow>
                    (create_error_response 404 (Some ''Image not found'')
                       (Some ''IMAGE_NOT_FOUND''), w1)
                | (Inr (Some item), w1) \<Rightarrow>
                    (let s3_key = dict_get item ''s3_key'' in
                     if download then
                       (case s3_get_object e s3_key w1 of
                          (Inl NoSuchKey, w2) \<Rightarrow>
                            (create_error_response 404 (Some ''Image file not found in storage'')
                               (Some ''FILE_NOT_FOUND''), w2)
                        | (Inl (Raised exn), w2) \<Rightarrow> (internal_error exn, w2)
                        | (Inr obj, w2) \<Rightarrow>
                            (create_response 200
                               (PDict [(''image_id'', image_id),
                                       (''filename'', dict_get item ''filename''),
                                       (''content_type'', dict_get item ''content_type''),
                                       (''image_data'', PStr (b64encode (Body obj)))]), w2))
                     else
                       (case generate_presigned_url e s3_key w1 of
                          (r, w2) \<Rightarrow>
                            (let presigned = (case r of Inl exn \<Rightarrow> PNone | Inr url \<Rightarrow> PStr url);
                                 metadata = metadata_of item;
                                 metadata' =
                                   (if truthy presigned
                                    then dict_set (dict_set metadata ''download_url'' presigned)
                                           ''url_expires_in'' (PInt 3600)
                                    else metadata)
                             in (create_success_response (PDict metadata') None 200, w2))))))"

section \<open>Uploading (handlers/upload_image.py)\<close>

text \<open>
  \<open>json.loads(event.get('body', '{}'))\<close>: a body that is not a string is a TypeError.
  The handler answers a JSONDecodeError with 400 and every other exception with 500.
\<close>

definition parse_body :: "env \<Rightarrow> pyval option \<Rightarrow> pyval loads_result" where
  "parse_body e b =
     (case (case b of None \<Rightarrow> PStr ''{}'' | Some v \<Rightarrow> v) of
        PStr s \<Rightarrow> json_loads e s
      | v \<Rightarrow> OtherException (''the JSON object must be str, bytes or bytearray, not ''
                               @ type_name v))"

definition content_type_map :: "(string \<times> string) list" where
  "content_type_map =
     [(''jpg'', ''image/jpeg''), (''jpeg'', ''image/jpeg''), (''png'', ''image/png''),
      (''gif'', ''image/gif''), (''webp'', ''image/webp'')]"

definition content_type_of :: "string \<Rightarrow> string" where
  "content_type_of file_extension =
     (case map_of content_type_map file_extension of
        None \<Rightarrow> ''application/octet-stream'' | Some t \<Rightarrow> t)"

text \<open>\<open>if metadata.get(k): db_item[k] = metadata[k]\<close>.\<close>

definition add_optional :: "pydict \<Rightarrow> string \<Rightarrow> pydict \<Rightarrow> pydict" where
  "add_optional metadata k db_item =
     (if truthy (dict_get metadata k) then dict_set db_item k (dict_get metadata k) else db_item)"

definition make_db_item ::
  "string \<Rightarrow> pyval \<Rightarrow> string \<Rightarrow> pyval \<Rightarrow> string \<Rightarrow> nat \<Rightarrow> string \<Rightarrow> pydict \<Rightarrow> pydict" where
  "make_db_item image_id user_id s3_key filename content_type file_size timestamp metadata =
     add_optional metadata ''location''
       (add_optional metadata ''tags''
          (add_optional metadata ''description''
             (add_optional metadata ''title''
                [(''image_id'', PStr image_id),
                 (''user_id'', user_id),
                 (''s3_key'', PStr s3_key),
                 (''filename'', filename),
                 (''content_type'', PStr content_type),
                 (''file_size'', PInt (int file_size)),
                 (''created_at'', PStr timestamp),
                 (''updated_at'', PStr timestamp)])))"

text \<open>The part of \<open>upload_image\<close> that follows the three validations.\<close>

definition store_image :: "env \<Rightarrow> pyval \<Rightarrow> pyval \<Rightarrow> pyval \<Rightarrow> pyval \<Rightarrow> world \<Rightarrow> response \<times> world" where
  "store_image e user_id filename image_data metadata w =
     (let image_id = uuid4 e in
      case rsplit_ext filename of
        Inl exn \<Rightarrow> (internal_error exn, w)
      | Inr file_extension \<Rightarrow>
          (let s3_key = ''images/'' @ py_str (str_of e) user_id @ ''/'' @ image_id
                        @ ''.'' @ file_extension
           in case b64decode image_data of
                Inl exn \<Rightarrow> (internal_error exn, w)
              | Inr decoded_image \<Rightarrow>
                  (let content_type = content_type_of file_extension in
                   case s3_put_object e s3_key decoded_image content_type w of
                     (Inl exn, w1) \<Rightarrow> (internal_error exn, w1)
                   | (Inr u, w1) \<Rightarrow>
                       (let timestamp = utcnow e in
                        case metadata of
                          PDict md \<Rightarrow>
                            (case db_put_item e
                                    (make_db_item image_id user_id s3_key filename content_type
                                       (length decoded_image) timestamp md) w1 of
                               (Inl exn, w2) \<Rightarrow> (internal_error exn, w2)
                             | (Inr u', w2) \<Rightarrow>
                                 (create_success_response
                                    (PDict [(''image_id'', PStr image_id),
                                            (''filename'', filename),
                                            (''s3_key'', PStr s3_key),
                                            (''created_at'', PStr timestamp)])
                                    (Some ''Image uploaded successfully'') 201, w2))
                        | _ \<Rightarrow> (internal_error (attribute_error metadata ''get''), w1)))))"

definition upload_image :: "env \<Rightarrow> event \<Rightarrow> world \<Rightarrow> response \<times> world" where
  "upload_image e ev w =
     (case parse_body e (event_body ev) of
        JSONDecodeError \<Rightarrow>
          (create_error_response 400 (Some ''Invalid JSON in request body'')
             (Some ''INVALID_JSON''), w)
      | ValueError exn \<Rightarrow> (internal_error exn, w)
      | OtherException exn \<Rightarrow> (internal_error exn, w)
      | Loaded (PDict b) \<Rightarrow>
          (let image_data = dict_get b ''image_data'';
               filename = dict_get b ''filename'';
               user_id = dict_get b ''user_id'';
               metadata = (if dict_has b ''metadata'' then dict_get b ''metadata'' else PDict [])
           in case validate_user_id user_id of
                (is_valid, error_msg) \<Rightarrow>
                  if \<not> is_valid
                  then (create_error_response 400 error_msg (Some ''INVALID_USER_ID''), w)
                  else
                    (case validate_image_file (set_iteration e) image_data filename of
                       Inl exn \<Rightarrow> (internal_error exn, w)
                     | Inr (is_valid, error_msg) \<Rightarrow>
                         if \<not> is_valid
                         then (create_error_response 400 error_msg (Some ''INVALID_IMAGE''), w)
                         else
                           (case validate_metadata (str_of e) metadata of
                              (is_valid, error_msg) \<Rightarrow>
                                if \<not> is_valid
                                then (create_error_response 400 error_msg
                                        (Some ''INVALID_METADATA''), w)
                                else store_image e user_id filename image_data metadata w)))
      | Loaded v \<Rightarrow> (internal_error (attribute_error v ''get''), w))"

section \<open>Reading a response; sample data\<close>

text \<open>
  The fields of a response body that the properties below speak about, and a small
  environment, events and a world on which they are evaluated.
\<close>

definition response_field :: "response \<Rightarrow> string \<Rightarrow> pyval option" where
  "response_field r k = (case body r of PDict b \<Rightarrow> map_of b k | _ \<Rightarrow> None)"

definition response_data :: "response \<Rightarrow> pydict option" where
  "response_data r = (case response_field r ''data'' of Some (PDict d) \<Rightarrow> Some d | _ \<Rightarrow> None)"

definition returned_images :: "response \<Rightarrow> pyval list" where
  "returned_images r =
     (case response_data r of
        Some d \<Rightarrow> (case map_of d ''images'' of Some (PList xs) \<Rightarrow> xs | _ \<Rightarrow> [])
      | None \<Rightarrow> [])"

definition error_code :: "response \<Rightarrow> pyval" where
  "error_code r =
     (case response_field r ''error'' of Some (PDict er) \<Rightarrow> dict_get er ''code'' | _ \<Rightarrow> PNone)"

text \<open>Two upload requests as JSON text, and the values they parse to.\<close>

definition quoted :: "string \<Rightarrow> string" where
  "quoted s = CHR 0x22 # s @ [CHR 0x22]"

definition upload_body :: "string \<Rightarrow> string" where
  "upload_body metadata_text =
     ''{'' @ quoted ''image_data'' @ '': '' @ quoted ''aGk='' @ '', ''
       @ quoted ''filename'' @ '': '' @ quoted ''photo.PNG'' @ '', ''
       @ quoted ''user_id'' @ '': '' @ quoted ''user123'' @ '', ''
       @ quoted ''metadata'' @ '': '' @ metadata_text @ ''}''"

definition upload_request :: "pydict \<Rightarrow> pyval" where
  "upload_request md =
     PDict [(''image_data'', PStr ''aGk=''), (''filename'', PStr ''photo.PNG''),
            (''user_id'', PStr ''user123''), (''metadata'', PDict md)]"

definition empty_title :: string where
  "empty_title = ''{'' @ quoted ''title'' @ '': '' @ quoted [] @ ''}''"

definition sample_json :: "(string \<times> pyval) list" where
  "sample_json =
     [(''{}'', PDict []),
      (upload_body empty_title, upload_request [(''title'', PStr [])]),
      (upload_body ''{}'', upload_request [])]"

definition quiet_env :: env where
  "quiet_env =
     \<lparr>raises = (\<lambda>c. None),
      json_loads = (\<lambda>s. case map_of sample_json s of Some v \<Rightarrow> Loaded v | None \<Rightarrow> JSONDecodeError),
      json_dumps = (\<lambda>v. ''key''), str_of = (\<lambda>v. ''?''),
      int_error = (\<lambda>s. ''invalid literal for int() with base 10''),
      set_iteration = [''png'', ''jpg'', ''jpeg'', ''gif'', ''webp''],
      presigned_url = (\<lambda>k. ''https://s3.test/'' @ k), uuid4 = ''id-1'', utcnow = ''2024-01-01T10:00:00''\<rparr>"

definition query_event :: "(string \<rightharpoonup> string) \<Rightarrow> event" where
  "query_event q = \<lparr>pathParameters = None, queryStringParameters = Some q, event_body = None\<rparr>"

definition img1 :: pydict where
  "img1 = [(''image_id'', PStr ''img1''), (''user_id'', PStr ''user123''),
           (''s3_key'', PStr ''images/user123/img1.png''), (''filename'', PStr ''a.png''),
           (''tags'', PList [PStr ''x'']), (''created_at'', PStr ''2024-01-01T10:00:00'')]"

definition img2 :: pydict where
  "img2 = [(''image_id'', PStr ''img2''), (''user_id'', PStr ''user456''),
           (''s3_key'', PStr ''images/user456/img2.png''), (''filename'', PStr ''b.png''),
           (''tags'', PList [PStr ''y'']), (''created_at'', PStr ''2024-01-02T10:00:00'')]"

definition sample_world :: world where
  "sample_world =
     \<lparr>bucket = [''images/user123/img1.png'' \<mapsto> \<lparr>Body = [104, 105], ContentType = ''image/png''\<rparr>,
                ''images/user456/img2.png'' \<mapsto> \<lparr>Body = [1, 2, 3], ContentType = ''image/png''\<rparr>],
      table = [img1, img2], calls = []\<rparr>"

section \<open>The list filter in the specification's words\<close>

text \<open>
  The filter of the specification: the conjunction of the criteria \<open>crit\<close> gives, an
  exact match on the owner, substring matches on title and location, inclusive bounds on
  \<open>created_at\<close>, and for the tags a disjunction of membership tests over the candidates
  that \<open>candidates\<close> draws from the parameter. The claim reads the criteria the caller
  supplies as the parameters present in the query string, and the candidates as the
  pieces between the commas.
\<close>

definition spec_filter :: "(string \<Rightarrow> string option) \<Rightarrow> (string \<Rightarrow> string list) \<Rightarrow> pydict \<Rightarrow> bool" where
  "spec_filter crit candidates item =
     ((case crit ''user_id'' of None \<Rightarrow> True
       | Some u \<Rightarrow> map_of item ''user_id'' = Some (PStr u))
    \<and> (case crit ''title'' of None \<Rightarrow> True
       | Some t \<Rightarrow> (case map_of item ''title'' of Some (PStr s) \<Rightarrow> str_contains s t | _ \<Rightarrow> False))
    \<and> (case crit ''tags'' of None \<Rightarrow> True
       | Some ts \<Rightarrow>
           (case map_of item ''tags'' of
              Some (PList xs) \<Rightarrow> list_ex (\<lambda>c. PStr c \<in> set xs) (candidates ts)
            | _ \<Rightarrow> False))
    \<and> (case crit ''location'' of None \<Rightarrow> True
       | Some l \<Rightarrow> (case map_of item ''location'' of Some (PStr s) \<Rightarrow> str_contains s l | _ \<Rightarrow> False))
    \<and> (case crit ''created_after'' of None \<Rightarrow> True
       | Some a \<Rightarrow> (case map_of item ''created_at'' of Some (PStr c) \<Rightarrow> str_le a c | _ \<Rightarrow> False))
    \<and> (case crit ''created_before'' of None \<Rightarrow> True
       | Some b \<Rightarrow> (case map_of item ''created_at'' of Some (PStr c) \<Rightarrow> str_le c b | _ \<Rightarrow> False)))"

text \<open>A criterion counts as supplied when its parameter is present and not empty.\<close>

definition supplied :: "(string \<rightharpoonup> string) \<Rightarrow> string \<Rightarrow> string option" where
  "supplied params k = (case params k of None \<Rightarrow> None | Some v \<Rightarrow> if v = [] then None else Some v)"

text \<open>
  A record whose title and location are not lists and whose tags are not a string: on
  such a record \<open>contains\<close> is a substring test on title and location and a membership
  test on the tags.
\<close>

definition plain_record :: "pydict \<Rightarrow> bool" where
  "plain_record item =
     ((case map_of item ''title'' of Some (PList xs) \<Rightarrow> False | _ \<Rightarrow> True)
    \<and> (case map_of item ''location'' of Some (PList xs) \<Rightarrow> False | _ \<Rightarrow> True)
    \<and> (case map_of item ''tags'' of Some (PStr s) \<Rightarrow> False | _ \<Rightarrow> True))"

text \<open>The filter the handler builds is the conjunction of one clause per parameter.\<close>

definition clause :: "(string \<rightharpoonup> string) \<Rightarrow> string \<Rightarrow> (pyval \<Rightarrow> cond) \<Rightarrow> pydict \<Rightarrow> bool" where
  "clause params k mk item =
     (if truthy (param_get params k) then eval_cond (mk (param_get params k)) item else True)"

definition image_event :: "string \<Rightarrow> (string \<rightharpoonup> string) option \<Rightarrow> event" where
  "image_event image_id q =
     \<lparr>pathParameters = Some [''image_id'' \<mapsto> image_id], queryStringParameters = q,
      event_body = None\<rparr>"

text \<open>An environment in which the calls \<open>ops\<close> raise and every other call succeeds.\<close>

definition failing_env :: "op list \<Rightarrow> env" where
  "failing_env ops = quiet_env\<lparr>raises := (\<lambda>c. if c \<in> set ops then Some ''boom'' else None)\<rparr>"

section \<open>Properties of the validators\<close>

lemma check_tags_None: "check_tags tags = None \<longleftrightarrow> (\<forall>t \<in> set tags. \<exists>s. t = PStr s \<and> length s \<le> 50)"
  by (induction tags) (auto split: pyval.splits)

lemma check_tags_Some: "check_tags tags \<noteq> None \<longleftrightarrow> (\<exists>t \<in> set tags. \<forall>s. t = PStr s \<longrightarrow> length s > 50)"
  by (induction tags) (auto split: pyval.splits)

lemma validate_metadata_dict:
  assumes "d \<noteq> []"
  shows "fst (validate_metadata rend (PDict d)) \<longleftrightarrow>
     \<not> (dict_has d ''title'' \<and> length (py_str rend (dict_get d ''title'')) > 256)
   \<and> \<not> (dict_has d ''description'' \<and> length (py_str rend (dict_get d ''description'')) > 2048)
   \<and> (dict_has d ''tags'' \<longrightarrow>
        (\<exists>tags. dict_get d ''tags'' = PList tags \<and> length tags \<le> 20 \<and> check_tags tags = None))"
  using assms by (auto simp: validate_metadata_def split: pyval.splits option.splits)

text \<open>
  Claim C8. Metadata validation accepts every metadata object whose title has exactly
  256 characters, whose description has exactly 2048, whose tags list has exactly 20
  entries and whose tags have exactly 50 characters each; it rejects every metadata
  object with a title longer than 256, a description longer than 2048, more than 20
  tags, or a tag longer than 50 characters.
\<close>

theorem validate_metadata_limits:
  "(map_of d ''title'' = Some (PStr t) \<and> length t = 256
      \<and> map_of d ''description'' = Some (PStr ds) \<and> length ds = 2048
      \<and> map_of d ''tags'' = Some (PList tags) \<and> length tags = 20
      \<and> (\<forall>g \<in> set tags. \<exists>s. g = PStr s \<and> length s = 50)
    \<longrightarrow> validate_metadata rend (PDict d) = (True, None))
   \<and> ((map_of d ''title'' = Some (PStr t) \<and> length t > 256)
      \<or> (map_of d ''description'' = Some (PStr ds) \<and> length ds > 2048)
      \<or> (map_of d ''tags'' = Some (PList tags)
           \<and> (length tags > 20 \<or> (\<exists>g \<in> set tags. \<exists>s. g = PStr s \<and> length s > 50)))
    \<longrightarrow> fst (validate_metadata rend (PDict d)) = False)"
proof (intro conjI impI)
  assume a: "map_of d ''title'' = Some (PStr t) \<and> length t = 256
      \<and> map_of d ''description'' = Some (PStr ds) \<and> length ds = 2048
      \<and> map_of d ''tags'' = Some (PList tags) \<and> length tags = 20
      \<and> (\<forall>g \<in> set tags. \<exists>s. g = PStr s \<and> length s = 50)"
  then have ne: "d \<noteq> []" by auto
  from a have "check_tags tags = None"
    unfolding check_tags_None by fastforce
  with a have "fst (validate_metadata rend (PDict d))"
    unfolding validate_metadata_dict [OF ne]
    by (simp add: dict_has_def dict_get_def py_str_def)
  moreover have "snd (validate_metadata rend (PDict d)) = None" if "fst (validate_metadata rend (PDict d))"
    using that by (auto simp: validate_metadata_def split: pyval.splits option.splits if_splits)
  ultimately show "validate_metadata rend (PDict d) = (True, None)"
    by (cases "validate_metadata rend (PDict d)") simp
next
  assume r: "(map_of d ''title'' = Some (PStr t) \<and> length t > 256)
      \<or> (map_of d ''description'' = Some (PStr ds) \<and> length ds > 2048)
      \<or> (map_of d ''tags'' = Some (PList tags)
           \<and> (length tags > 20 \<or> (\<exists>g \<in> set tags. \<exists>s. g = PStr s \<and> length s > 50)))"
  then have ne: "d \<noteq> []" by auto
  from r consider
      (title) "map_of d ''title'' = Some (PStr t)" "length t > 256"
    | (descr) "map_of d ''description'' = Some (PStr ds)" "length ds > 2048"
    | (many) "map_of d ''tags'' = Some (PList tags)" "length tags > 20"
    | (long) "map_of d ''tags'' = Some (PList tags)"
             "\<exists>g \<in> set tags. \<exists>s. g = PStr s \<and> length s > 50"
    by blast
  then show "fst (validate_metadata rend (PDict d)) = False"
  proof cases
    case title
    then show ?thesis
      unfolding validate_metadata_dict [OF ne] by (simp add: dict_has_def dict_get_def py_str_def)
  next
    case descr
    then show ?thesis
      unfolding validate_metadata_dict [OF ne] by (simp add: dict_has_def dict_get_def py_str_def)
  next
    case many
    then show ?thesis
      unfolding validate_metadata_dict [OF ne] by (simp add: dict_has_def dict_get_def)
  next
    case long
    from long(2) have "check_tags tags \<noteq> None"
      unfolding check_tags_Some by auto
    with long(1) show ?thesis
      unfolding validate_metadata_dict [OF ne] by (simp add: dict_has_def dict_get_def)
  qed
qed

theorem validate_metadata_limits_witness:
  "validate_metadata (\<lambda>v. [])
     (PDict [(''title'', PStr (replicate 256 CHR ''t'')),
             (''description'', PStr (replicate 2048 CHR ''d'')),
             (''tags'', PList (replicate 20 (PStr (replicate 50 CHR ''g''))))]) = (True, None)
   \<and> fst (validate_metadata (\<lambda>v. [])
     (PDict [(''title'', PStr (replicate 256 CHR ''t'')),
             (''description'', PStr (replicate 2048 CHR ''d'')),
             (''tags'', PList (replicate 20 (PStr (replicate 51 CHR ''g''))))])) = False"
  using validate_metadata_limits [of
      "[(''title'', PStr (replicate 256 CHR ''t'')),
             (''description'', PStr (replicate 2048 CHR ''d'')),
             (''tags'', PList (replicate 20 (PStr (replicate 50 CHR ''g''))))]"
      "replicate 256 CHR ''t''" "replicate 2048 CHR ''d''"
      "replicate 20 (PStr (replicate 50 CHR ''g''))" "\<lambda>v. []"]
    validate_metadata_limits [of
      "[(''title'', PStr (replicate 256 CHR ''t'')),
             (''description'', PStr (replicate 2048 CHR ''d'')),
             (''tags'', PList (replicate 20 (PStr (replicate 51 CHR ''g''))))]"
      "replicate 256 CHR ''t''" "replicate 2048 CHR ''d''"
      "replicate 20 (PStr (replicate 51 CHR ''g''))" "\<lambda>v. []"]
  by simp

section \<open>Properties of listing\<close>



lemma list_images_limit_error:
  assumes "page_limit e (or_empty (queryStringParameters ev)) = Inl exn"
  shows "list_images e ev w =
     (create_error_response 400 (Some (''Invalid parameter value: '' @ exn)) (Some ''INVALID_PARAMETER''), w)"
  using assms by (simp add: list_images_def)

lemma list_images_limit_ok:
  assumes "page_limit e (or_empty (queryStringParameters ev)) = Inr limit"
  shows "list_images e ev w =
     (case exclusive_start_key e (param_get (or_empty (queryStringParameters ev)) ''last_evaluated_key'') of
        JSONDecodeError \<Rightarrow>
          (create_error_response 400 (Some ''Invalid last_evaluated_key format'')
             (Some ''INVALID_PAGINATION''), w)
      | ValueError exn \<Rightarrow>
          (create_error_response 400 (Some (''Invalid parameter value: '' @ exn))
             (Some ''INVALID_PARAMETER''), w)
      | OtherException exn \<Rightarrow> (internal_error exn, w)
      | Loaded start \<Rightarrow>
          (case db_scan e limit (build_filter (or_empty (queryStringParameters ev))) start w of
             (Inl exn, w') \<Rightarrow> (internal_error exn, w')
           | (Inr res, w') \<Rightarrow> (create_success_response (list_result e res) None 200, w')))"
  using assms by (simp add: list_images_def Let_def)



lemma statusCode_simps [simp]:
  "statusCode (create_response c b) = c"
  "statusCode (create_error_response c m k) = c"
  "statusCode (create_success_response d m c) = c"
  "statusCode (internal_error exn) = 500"
  by (simp_all add: create_response_def create_error_response_def create_success_response_def internal_error_def)

lemma error_code_error [simp]:
  "error_code (create_error_response c m (Some k)) = (if k = [] then PNone else PStr k)"
  by (simp add: error_code_def response_field_def create_error_response_def create_response_def
      opt_str_def dict_get_def)

lemma error_code_other [simp]:
  "error_code (create_success_response d m c) = PNone"
  "error_code (internal_error exn) = PStr ''INTERNAL_ERROR''"
  by (simp_all add: error_code_def response_field_def create_success_response_def
      internal_error_def create_error_response_def create_response_def opt_str_def dict_get_def)

lemma returned_images_list_result:
  "returned_images (create_success_response (list_result e res) None 200)
     = map PDict (map strip_s3_key (Items res))"
  by (simp add: returned_images_def response_data_def response_field_def
      create_success_response_def create_response_def list_result_def Let_def opt_str_def)

lemma returned_images_error [simp]:
  "returned_images (create_error_response c m k) = []"
  "returned_images (internal_error exn) = []"
  by (simp_all add: returned_images_def response_data_def response_field_def internal_error_def
      create_error_response_def create_response_def)

lemma db_scan_Items:
  assumes "db_scan e limit fe start w = (Inr res, w')"
  shows "length (Items res) \<le> nat limit \<and> set (Items res) \<subseteq> set (table w)
         \<and> (\<forall>item \<in> set (Items res). accepts fe item)"
proof -
  have a: "length (Items (scan_from xs limit fe)) \<le> nat limit
      \<and> set (Items (scan_from xs limit fe)) \<subseteq> set xs
      \<and> (\<forall>item \<in> set (Items (scan_from xs limit fe)). accepts fe item)" for xs
    by (auto simp: scan_from_def Let_def dest: in_set_takeD
        intro: order_trans [OF length_filter_le])
  have b: "set (drop 1 (dropWhile P xs)) \<subseteq> set xs" for P and xs :: "pydict list"
    by (meson in_set_dropD set_dropWhileD subsetI)
  from assms show ?thesis
    using a b by (fastforce simp: db_scan_def split: option.splits if_splits)
qed






lemma accepts_simps [simp]:
  "accepts None item = True"
  "accepts (Some c) item = eval_cond c item"
  "accepts (and_with fe c) item = (accepts fe item \<and> eval_cond c item)"
  by (simp_all add: accepts_def and_with_def split: option.splits)

lemma tags_loop_eval:
  "accepts (tags_loop cs (Some c0)) item
     = (eval_cond c0 item \<or> (\<exists>t \<in> set cs. attr_contains (map_of item ''tags'') (PStr t)))"
  by (induction cs arbitrary: c0) (auto simp: or_with_def)

lemma tags_loop_None: "tags_loop cs None = None \<longleftrightarrow> cs = []"
proof (cases cs)
  case Nil
  then show ?thesis by simp
next
  case (Cons t ts)
  have "tags_loop ts (Some c) \<noteq> None" for c
    by (induction ts arbitrary: c) (auto simp: or_with_def)
  with Cons show ?thesis by (simp add: or_with_def)
qed

lemma tags_loop_accepts:
  "cs \<noteq> [] \<Longrightarrow>
   accepts (tags_loop cs None) item = (\<exists>t \<in> set cs. attr_contains (map_of item ''tags'') (PStr t))"
  by (cases cs) (auto simp: or_with_def tags_loop_eval)

lemma split_on_nonempty: "split_on c s \<noteq> []"
  by (induction s) (auto split: list.splits)

lemma tags_list_nonempty: "tags_list s \<noteq> []"
  by (simp add: tags_list_def split_on_nonempty)

lemma accepts_add_criterion:
  "accepts (add_criterion v c fe) item = (accepts fe item \<and> (if truthy v then eval_cond c item else True))"
  by (simp add: add_criterion_def)

lemma accepts_add_tags:
  "accepts (add_tags (param_get params ''tags'') fe) item
      = (accepts fe item \<and> (case supplied params ''tags'' of None \<Rightarrow> True
       | Some ts \<Rightarrow> \<exists>t \<in> set (tags_list ts). attr_contains (map_of item ''tags'') (PStr t)))"
proof (cases "params ''tags''")
  case None
  then show ?thesis by (simp add: add_tags_def param_get_def opt_str_def supplied_def)
next
  case (Some s)
  show ?thesis
  proof (cases "tags_loop (tags_list s) None")
    case None
    then show ?thesis using tags_list_nonempty [of s] by (simp add: tags_loop_None)
  next
    case (Some c)
    with tags_loop_accepts [OF tags_list_nonempty, of s item]
    have "eval_cond c item = (\<exists>t \<in> set (tags_list s). attr_contains (map_of item ''tags'') (PStr t))"
      by simp
    with Some \<open>params ''tags'' = Some s\<close> show ?thesis
      by (simp add: add_tags_def param_get_def opt_str_def supplied_def)
  qed
qed

lemma build_filter_clauses:
  "accepts (build_filter params) item =
     (clause params ''user_id'' (Eq ''user_id'') item
    \<and> clause params ''title'' (Contains ''title'') item
    \<and> (case supplied params ''tags'' of None \<Rightarrow> True
       | Some ts \<Rightarrow> \<exists>t \<in> set (tags_list ts). attr_contains (map_of item ''tags'') (PStr t))
    \<and> clause params ''location'' (Contains ''location'') item
    \<and> clause params ''created_after'' (Gte ''created_at'') item
    \<and> clause params ''created_before'' (Lte ''created_at'') item)"
proof -
  have first: "accepts (if b then Some c else None) item = (if b then eval_cond c item else True)" for b c
    by simp
  show ?thesis
    unfolding build_filter_def Let_def clause_def
    by (simp only: accepts_add_criterion accepts_add_tags first conj_assoc)
qed

lemma clause_Eq:
  "clause params k (Eq a) item =
     (case supplied params k of None \<Rightarrow> True | Some v \<Rightarrow> map_of item a = Some (PStr v))"
  by (simp add: clause_def supplied_def param_get_def opt_str_def split: option.splits)

lemma clause_Contains:
  "clause params k (Contains a) item =
     (case supplied params k of None \<Rightarrow> True | Some v \<Rightarrow> attr_contains (map_of item a) (PStr v))"
  by (simp add: clause_def supplied_def param_get_def opt_str_def split: option.splits)

lemma clause_Gte:
  "clause params k (Gte a) item =
     (case supplied params k of None \<Rightarrow> True
      | Some v \<Rightarrow> (case map_of item a of Some (PStr c) \<Rightarrow> str_le v c | _ \<Rightarrow> False))"
  by (simp add: clause_def supplied_def param_get_def opt_str_def split: option.splits pyval.splits)

lemma clause_Lte:
  "clause params k (Lte a) item =
     (case supplied params k of None \<Rightarrow> True
      | Some v \<Rightarrow> (case map_of item a of Some (PStr c) \<Rightarrow> str_le c v | _ \<Rightarrow> False))"
  by (simp add: clause_def supplied_def param_get_def opt_str_def split: option.splits pyval.splits)

lemma supplied_None: "supplied params k = None \<Longrightarrow> \<not> truthy (param_get params k)"
  by (simp add: supplied_def param_get_def opt_str_def split: option.splits if_splits)

lemma build_filter_absent:
  assumes "supplied params ''user_id'' = None" "supplied params ''title'' = None"
    "supplied params ''tags'' = None" "supplied params ''location'' = None"
    "supplied params ''created_after'' = None" "supplied params ''created_before'' = None"
  shows "build_filter params = None"
  unfolding build_filter_def Let_def add_criterion_def add_tags_def
  by (simp only: assms [THEN supplied_None] if_False)

lemma returned_images_cases:
  "returned_images (fst (list_images e ev w)) = []
   \<or> (\<exists>limit start res w'.
         db_scan e limit (build_filter (or_empty (queryStringParameters ev))) start w = (Inr res, w')
         \<and> returned_images (fst (list_images e ev w)) = map PDict (map strip_s3_key (Items res)))"
proof (cases "page_limit e (or_empty (queryStringParameters ev))")
  case (Inl exn)
  then show ?thesis by (simp add: list_images_limit_error)
next
  case (Inr limit)
  show ?thesis
  proof (cases "exclusive_start_key e (param_get (or_empty (queryStringParameters ev)) ''last_evaluated_key'')")
    case (Loaded start)
    obtain r w' where s: "db_scan e limit (build_filter (or_empty (queryStringParameters ev))) start w = (r, w')"
      by (cases "db_scan e limit (build_filter (or_empty (queryStringParameters ev))) start w")
    show ?thesis
    proof (cases r)
      case (Inl exn)
      with Loaded s show ?thesis by (simp add: list_images_limit_ok [OF Inr])
    next
      case r: (Inr res)
      with Loaded s have "returned_images (fst (list_images e ev w)) = map PDict (map strip_s3_key (Items res))"
        by (simp add: list_images_limit_ok [OF Inr] returned_images_list_result)
      with s r show ?thesis by blast
    qed
  next
    case JSONDecodeError
    then show ?thesis by (simp add: list_images_limit_ok [OF Inr])
  next
    case (ValueError exn)
    then show ?thesis by (simp add: list_images_limit_ok [OF Inr])
  next
    case (OtherException exn)
    then show ?thesis by (simp add: list_images_limit_ok [OF Inr])
  qed
qed

lemma list_images_returns_accepted:
  assumes "img \<in> set (returned_images (fst (list_images e ev w)))"
  shows "\<exists>item \<in> set (table w). img = PDict (strip_s3_key item)
           \<and> accepts (build_filter (or_empty (queryStringParameters ev))) item"
proof -
  from assms returned_images_cases [of e ev w]
  obtain limit start res w' where
    s: "db_scan e limit (build_filter (or_empty (queryStringParameters ev))) start w = (Inr res, w')"
    and r: "returned_images (fst (list_images e ev w)) = map PDict (map strip_s3_key (Items res))"
    by auto
  from assms r obtain item where i: "item \<in> set (Items res)" "img = PDict (strip_s3_key item)"
    by auto
  with db_scan_Items [OF s] show ?thesis by blast
qed

text \<open>
  Claim C4, as the code has it. On a record whose title and location are not lists and
  whose tags are not a string, the filter of the list operation is the conjunction of
  the criteria supplied with a value that is not empty: an exact match on \<open>user_id\<close>,
  substring matches on title and location, inclusive bounds on \<open>created_at\<close>, and, for
  the tags, a disjunction of membership tests over the candidates between the commas,
  each with the white space around it removed. A criterion that is absent or empty does
  not constrain; with all of them absent or empty there is no filter and every record
  is accepted. Every record the list operation returns is a record of the table that
  this filter accepts.
\<close>

theorem list_filter_conjunction:
  "(plain_record item \<longrightarrow>
      accepts (build_filter params) item = spec_filter (supplied params) tags_list item)
   \<and> (supplied params ''user_id'' = None \<and> supplied params ''title'' = None
      \<and> supplied params ''tags'' = None \<and> supplied params ''location'' = None
      \<and> supplied params ''created_after'' = None \<and> supplied params ''created_before'' = None
      \<longrightarrow> build_filter params = None \<and> accepts (build_filter params) item)
   \<and> (\<forall>img \<in> set (returned_images (fst (list_images e ev w))).
        \<exists>stored \<in> set (table w). img = PDict (strip_s3_key stored)
           \<and> accepts (build_filter (or_empty (queryStringParameters ev))) stored)"
proof (intro conjI impI ballI)
  assume p: "plain_record item"
  have title: "attr_contains (map_of item ''title'') (PStr t)
      = (case map_of item ''title'' of Some (PStr s) \<Rightarrow> str_contains s t | _ \<Rightarrow> False)" for t
    using p by (auto simp: plain_record_def split: option.splits pyval.splits)
  have location: "attr_contains (map_of item ''location'') (PStr t)
      = (case map_of item ''location'' of Some (PStr s) \<Rightarrow> str_contains s t | _ \<Rightarrow> False)" for t
    using p by (auto simp: plain_record_def split: option.splits pyval.splits)
  have tags: "(\<exists>t \<in> set cs. attr_contains (map_of item ''tags'') (PStr t))
      = (case map_of item ''tags'' of Some (PList xs) \<Rightarrow> list_ex (\<lambda>c. PStr c \<in> set xs) cs | _ \<Rightarrow> False)" for cs
    using p by (auto simp: plain_record_def list_ex_iff split: option.splits pyval.splits)
  have c2: "clause params ''title'' (Contains ''title'') item
      = (case supplied params ''title'' of None \<Rightarrow> True
         | Some t \<Rightarrow> (case map_of item ''title'' of Some (PStr s) \<Rightarrow> str_contains s t | _ \<Rightarrow> False))"
    unfolding clause_Contains by (cases "supplied params ''title''") (simp_all only: option.case title)
  have c3: "(case supplied params ''tags'' of None \<Rightarrow> True
       | Some ts \<Rightarrow> \<exists>t \<in> set (tags_list ts). attr_contains (map_of item ''tags'') (PStr t))
      = (case supplied params ''tags'' of None \<Rightarrow> True
       | Some ts \<Rightarrow>
           (case map_of item ''tags'' of
              Some (PList xs) \<Rightarrow> list_ex (\<lambda>c. PStr c \<in> set xs) (tags_list ts)
            | _ \<Rightarrow> False))"
    by (cases "supplied params ''tags''") (simp_all only: option.case tags)
  have c4: "clause params ''location'' (Contains ''location'') item
      = (case supplied params ''location'' of None \<Rightarrow> True
         | Some l \<Rightarrow> (case map_of item ''location'' of Some (PStr s) \<Rightarrow> str_contains s l | _ \<Rightarrow> False))"
    unfolding clause_Contains by (cases "supplied params ''location''") (simp_all only: option.case location)
  show "accepts (build_filter params) item = spec_filter (supplied params) tags_list item"
    unfolding build_filter_clauses spec_filter_def c2 c3 c4 clause_Eq clause_Gte clause_Lte
    by (rule refl)
next
  assume a: "supplied params ''user_id'' = None \<and> supplied params ''title'' = None
      \<and> supplied params ''tags'' = None \<and> supplied params ''location'' = None
      \<and> supplied params ''created_after'' = None \<and> supplied params ''created_before'' = None"
  then show "build_filter params = None"
    by (intro build_filter_absent) simp_all
  then show "accepts (build_filter params) item" by simp
next
  fix img
  assume "img \<in> set (returned_images (fst (list_images e ev w)))"
  then show "\<exists>stored \<in> set (table w). img = PDict (strip_s3_key stored)
           \<and> accepts (build_filter (or_empty (queryStringParameters ev))) stored"
    by (rule list_images_returns_accepted)
qed


lemma strip_x: "strip '' x'' = ''x''"
  by (simp add: strip_def py_isspace_def)

theorem list_filter_conjunction_witness:
  "plain_record img1
   \<and> accepts (build_filter [''user_id'' \<mapsto> ''user123'', ''tags'' \<mapsto> ''y, x'']) img1
   \<and> \<not> accepts (build_filter [''user_id'' \<mapsto> ''user123'', ''tags'' \<mapsto> ''y, x'']) img2
   \<and> build_filter Map.empty = None
   \<and> returned_images (fst (list_images quiet_env (query_event [''tags'' \<mapsto> ''y'']) sample_world))
       = [PDict (strip_s3_key img2)]"
  using list_filter_conjunction [of img1 "[''user_id'' \<mapsto> ''user123'', ''tags'' \<mapsto> ''y, x'']"
      quiet_env "query_event [''tags'' \<mapsto> ''y'']" sample_world]
    list_filter_conjunction [of img2 "[''user_id'' \<mapsto> ''user123'', ''tags'' \<mapsto> ''y, x'']"
      quiet_env "query_event [''tags'' \<mapsto> ''y'']" sample_world]
    list_filter_conjunction [of img1 Map.empty quiet_env "query_event [''tags'' \<mapsto> ''y'']" sample_world]
  by (simp add: plain_record_def img1_def img2_def spec_filter_def supplied_def tags_list_def
      strip_def py_isspace_def list_images_def query_event_def or_empty_def page_limit_def
      DEFAULT_PAGE_SIZE_def MAX_PAGE_SIZE_def exclusive_start_key_def param_get_def opt_str_def
      db_scan_def quiet_env_def sample_world_def scan_from_def called_def
      returned_images_list_result build_filter_def add_criterion_def add_tags_def or_with_def
      and_with_def accepts_def strip_s3_key_def dict_has_def dict_del_def)

text \<open>
  The claim as stated fails: an empty \<open>user_id\<close> is supplied and is not an exact match
  for the owner of the record, and the candidate \<open>x\<close> after a blank is not among the record's tags,
  yet the handler's filter accepts the record in both cases.
\<close>

theorem list_filter_counterexample:
  "accepts (build_filter [''user_id'' \<mapsto> '''']) img1
   \<and> \<not> spec_filter [''user_id'' \<mapsto> ''''] (split_on CHR '','') img1
   \<and> accepts (build_filter [''tags'' \<mapsto> '' x'']) img1
   \<and> \<not> spec_filter [''tags'' \<mapsto> '' x''] (split_on CHR '','') img1"
  by (simp add: img1_def spec_filter_def tags_list_def strip_x
      param_get_def opt_str_def build_filter_def add_criterion_def add_tags_def or_with_def
      and_with_def accepts_def)






section \<open>The storage key stays inside\<close>

lemma map_of_dict_set: "map_of (dict_set d k v) k' = (if k' = k then Some v else map_of d k')"
  by (induction d k v rule: dict_set.induct) auto

lemma strip_s3_key_has: "\<not> dict_has (strip_s3_key item) ''s3_key''"
proof -
  have "map_of (filter (\<lambda>kv. fst kv \<noteq> k) d) k = None" for d :: pydict and k
    by (induction d) auto
  then show ?thesis
    by (simp add: strip_s3_key_def dict_has_def dict_del_def)
qed

lemma metadata_of_keys: "map_of (metadata_of item) k \<noteq> None \<Longrightarrow> k \<in> set metadata_keys"
proof -
  assume "map_of (metadata_of item) k \<noteq> None"
  then have "k \<in> fst ` set (metadata_of item)"
    by (simp add: map_of_eq_None_iff)
  then show ?thesis
    by (auto simp: metadata_of_def)
qed

lemma metadata_of_s3_key: "map_of (metadata_of item) ''s3_key'' = None"
proof (rule ccontr)
  assume "map_of (metadata_of item) ''s3_key'' \<noteq> None"
  from metadata_of_keys [OF this] show False by (simp add: metadata_keys_def)
qed

lemma response_data_simps [simp]:
  "response_data (create_error_response c m k) = None"
  "response_data (internal_error exn) = None"
  "response_data (create_success_response (PDict d) msg c) = Some d"
  "response_data (create_response c (PDict [(''image_id'', a), (''filename'', b), (''content_type'', t), (''image_data'', i)])) = None"
  by (simp_all add: response_data_def response_field_def internal_error_def
      create_error_response_def create_success_response_def create_response_def)

lemma response_field_s3_key [simp]:
  "response_field (create_error_response c m k) ''s3_key'' = None"
  "response_field (internal_error exn) ''s3_key'' = None"
  "response_field (create_success_response d msg c) ''s3_key'' = None"
  "response_field (create_response c (PDict [(''image_id'', a), (''filename'', b), (''content_type'', t), (''image_data'', i)])) ''s3_key'' = None"
  by (simp_all add: response_field_def internal_error_def
      create_error_response_def create_success_response_def create_response_def)

lemma get_image_data:
  assumes "response_data (fst (get_image e ev w)) = Some d"
  shows "\<exists>item. map_of d ''s3_key'' = map_of (metadata_of item) ''s3_key''"
  using assms
  by (auto simp: get_image_def Let_def map_of_dict_set
      split: prod.splits if_splits sum.splits option.splits s3_error.splits)

lemma get_image_top: "response_field (fst (get_image e ev w)) ''s3_key'' = None"
  by (auto simp: get_image_def Let_def
      split: prod.splits if_splits sum.splits option.splits s3_error.splits)

text \<open>
  Claim C7. No record that the list operation returns has the field \<open>s3_key\<close>, and no
  response of the get operation has it, neither in its data (the metadata read, with
  \<open>download\<close> false) nor at the top of its body, whatever the request, the stored
  records and the behaviour of the stores.
\<close>

theorem s3_key_never_returned:
  "(\<forall>img \<in> set (returned_images (fst (list_images e ev w))).
       \<exists>item. img = PDict item \<and> \<not> dict_has item ''s3_key'')
   \<and> (\<forall>d. response_data (fst (get_image e ev' w)) = Some d \<longrightarrow> \<not> dict_has d ''s3_key'')
   \<and> response_field (fst (get_image e ev' w)) ''s3_key'' = None"
proof (intro conjI ballI allI impI)
  fix img
  assume "img \<in> set (returned_images (fst (list_images e ev w)))"
  with returned_images_cases [of e ev w]
  obtain item where "img = PDict (strip_s3_key item)" by auto
  then show "\<exists>item. img = PDict item \<and> \<not> dict_has item ''s3_key''"
    using strip_s3_key_has by blast
next
  fix d
  assume "response_data (fst (get_image e ev' w)) = Some d"
  from get_image_data [OF this] show "\<not> dict_has d ''s3_key''"
    by (auto simp: dict_has_def metadata_of_s3_key)
next
  show "response_field (fst (get_image e ev' w)) ''s3_key'' = None"
    by (rule get_image_top)
qed


lemma get_img1_metadata:
  "get_image quiet_env (image_event ''img1'' None) sample_world =
     (create_success_response
        (PDict [(''image_id'', PStr ''img1''), (''user_id'', PStr ''user123''),
                (''filename'', PStr ''a.png''), (''tags'', PList [PStr ''x'']),
                (''created_at'', PStr ''2024-01-01T10:00:00''),
                (''download_url'', PStr ''https://s3.test/images/user123/img1.png''),
                (''url_expires_in'', PInt 3600)]) None 200,
      called S3Presign (called DbGetItem sample_world))"
  by (simp add: get_image_def image_event_def or_empty_def param_get_def opt_str_def
      validate_image_id_def py_str_def db_get_item_def quiet_env_def sample_world_def
      has_key_def img1_def img2_def lower_def py_lower_char_def dict_get_def
      generate_presigned_url_def metadata_of_def metadata_keys_def called_def Let_def)

lemma list_all_sample:
  "returned_images (fst (list_images quiet_env (query_event Map.empty) sample_world))
       = [PDict (strip_s3_key img1), PDict (strip_s3_key img2)]"
  by (simp add: list_images_def query_event_def or_empty_def page_limit_def
      DEFAULT_PAGE_SIZE_def MAX_PAGE_SIZE_def exclusive_start_key_def param_get_def opt_str_def
      db_scan_def quiet_env_def sample_world_def scan_from_def called_def build_filter_def
      add_criterion_def add_tags_def accepts_def returned_images_list_result)

theorem s3_key_never_returned_witness:
  "returned_images (fst (list_images quiet_env (query_event Map.empty) sample_world))
       = [PDict (strip_s3_key img1), PDict (strip_s3_key img2)]
   \<and> \<not> dict_has (strip_s3_key img1) ''s3_key'' \<and> \<not> dict_has (strip_s3_key img2) ''s3_key''
   \<and> dict_has img1 ''s3_key''
   \<and> response_data (fst (get_image quiet_env (image_event ''img1'' None) sample_world))
       = Some [(''image_id'', PStr ''img1''), (''user_id'', PStr ''user123''),
                (''filename'', PStr ''a.png''), (''tags'', PList [PStr ''x'']),
                (''created_at'', PStr ''2024-01-01T10:00:00''),
                (''download_url'', PStr ''https://s3.test/images/user123/img1.png''),
                (''url_expires_in'', PInt 3600)]"
  using s3_key_never_returned [of quiet_env "query_event Map.empty" sample_world
      "image_event ''img1'' None"]
  by (simp add: get_img1_metadata list_all_sample
      img1_def img2_def strip_s3_key_def dict_has_def dict_del_def)

section \<open>Properties of deleting\<close>

lemma validate_image_id_ok:
  "validate_image_id v = (True, None) \<longleftrightarrow> (\<exists>s. v = PStr s \<and> s \<noteq> [] \<and> length s \<le> 128)"
  by (cases v) (auto simp: validate_image_id_def)

lemma validate_image_id_fst:
  "fst (validate_image_id v) \<longleftrightarrow> (\<exists>s. v = PStr s \<and> s \<noteq> [] \<and> length s \<le> 128)"
  by (cases v) (auto simp: validate_image_id_def)

text \<open>
  What \<open>delete_image\<close> does once the identifier is valid and the lookup has found the
  record.
\<close>

lemma delete_image_found:
  assumes "or_empty (pathParameters ev) ''image_id'' = Some k" "k \<noteq> []" "length k \<le> 128"
    and "raises e DbGetItem = None" "find (has_key k) (table w) = Some item"
  shows "delete_image e ev w =
     (if truthy (param_get (or_empty (queryStringParameters ev)) ''user_id'')
         \<and> dict_get item ''user_id'' \<noteq> param_get (or_empty (queryStringParameters ev)) ''user_id''
      then (create_error_response 403 (Some ''Not authorized to delete this image'')
              (Some ''FORBIDDEN''), called DbGetItem w)
      else (case db_delete_item e k
                   (snd (s3_delete_object e (dict_get item ''s3_key'') (called DbGetItem w))) of
              (Inl exn, w3) \<Rightarrow> (internal_error exn, w3)
            | (Inr u, w3) \<Rightarrow>
                (create_success_response
                   (PDict [(''image_id'', PStr k), (''deleted'', PBool True)])
                   (Some ''Image deleted successfully'') 200, w3)))"
proof -
  have pg: "param_get (or_empty (pathParameters ev)) ''image_id'' = PStr k"
    using assms(1) by (simp add: param_get_def opt_str_def)
  have v: "validate_image_id (PStr k) = (True, None)"
    using assms(2,3) by (simp add: validate_image_id_def)
  have g: "db_get_item e k w = (Inr (Some item), called DbGetItem w)"
    using assms(4,5) by (simp add: db_get_item_def)
  show ?thesis
    unfolding delete_image_def Let_def pg v
    by (simp add: py_str_def g split: prod.splits)
qed

lemma s3_delete_object_world:
  "calls (snd (s3_delete_object e key w)) = calls w @ [S3DeleteObject]"
  "table (snd (s3_delete_object e key w)) = table w"
  "raises e S3DeleteObject = None \<Longrightarrow> key = PStr k \<Longrightarrow>
     bucket (snd (s3_delete_object e key w)) = (bucket w)(k := None)"
  "raises e S3DeleteObject \<noteq> None \<Longrightarrow> bucket (snd (s3_delete_object e key w)) = bucket w"
  by (auto simp: s3_delete_object_def called_def split: option.splits pyval.splits)

lemma db_delete_item_world:
  "calls (snd (db_delete_item e k w)) = calls w @ [DbDeleteItem]"
  "bucket (snd (db_delete_item e k w)) = bucket w"
  "raises e DbDeleteItem = None \<Longrightarrow>
     fst (db_delete_item e k w) = Inr ()
     \<and> table (snd (db_delete_item e k w)) = filter (\<lambda>item. \<not> has_key k item) (table w)"
  "raises e DbDeleteItem = Some exn \<Longrightarrow>
     fst (db_delete_item e k w) = Inl exn \<and> table (snd (db_delete_item e k w)) = table w"
  by (auto simp: db_delete_item_def called_def split: option.splits)

lemma find_filter_not: "find P (filter (\<lambda>x. \<not> P x) xs) = None"
  by (induction xs) auto

lemma delete_image_authorized:
  assumes "or_empty (pathParameters ev) ''image_id'' = Some k" "k \<noteq> []" "length k \<le> 128"
    and "raises e DbGetItem = None" "find (has_key k) (table w) = Some item"
    and "\<not> (truthy (param_get (or_empty (queryStringParameters ev)) ''user_id'')
         \<and> dict_get item ''user_id'' \<noteq> param_get (or_empty (queryStringParameters ev)) ''user_id'')"
  shows "calls (snd (delete_image e ev w)) = calls w @ [DbGetItem, S3DeleteObject, DbDeleteItem]"
    and "raises e DbDeleteItem = None \<Longrightarrow>
       fst (delete_image e ev w) =
         create_success_response (PDict [(''image_id'', PStr k), (''deleted'', PBool True)])
           (Some ''Image deleted successfully'') 200
       \<and> find (has_key k) (table (snd (delete_image e ev w))) = None"
    and "raises e DbDeleteItem = Some exn \<Longrightarrow>
       fst (delete_image e ev w) = internal_error exn
       \<and> table (snd (delete_image e ev w)) = table w"
    and "raises e S3DeleteObject = None \<Longrightarrow> dict_get item ''s3_key'' = PStr sk \<Longrightarrow>
       bucket (snd (delete_image e ev w)) sk = None"
proof -
  let ?w2 = "snd (s3_delete_object e (dict_get item ''s3_key'') (called DbGetItem w))"
  obtain r w3 where d: "db_delete_item e k ?w2 = (r, w3)"
    by (cases "db_delete_item e k ?w2")
  have del: "delete_image e ev w =
      (case r of Inl exn \<Rightarrow> (internal_error exn, w3)
       | Inr u \<Rightarrow> (create_success_response
                   (PDict [(''image_id'', PStr k), (''deleted'', PBool True)])
                   (Some ''Image deleted successfully'') 200, w3))"
    unfolding delete_image_found [OF assms(1-5)] if_not_P [OF assms(6)] d
    by (simp split: sum.splits)
  then have w3: "snd (delete_image e ev w) = w3"
    by (simp split: sum.splits)
  have c2: "calls ?w2 = calls w @ [DbGetItem, S3DeleteObject]"
    by (simp add: s3_delete_object_world called_def)
  from db_delete_item_world(1) [of e k ?w2] d c2
  show "calls (snd (delete_image e ev w)) = calls w @ [DbGetItem, S3DeleteObject, DbDeleteItem]"
    by (simp add: w3)
  have t2: "table ?w2 = table w"
    by (simp add: s3_delete_object_world called_def)
  {
    assume ok: "raises e DbDeleteItem = None"
    from db_delete_item_world(3) [OF ok, of k ?w2] d t2
    have "r = Inr ()" and "table w3 = filter (\<lambda>item. \<not> has_key k item) (table w)"
      by simp_all
    then show "fst (delete_image e ev w) =
         create_success_response (PDict [(''image_id'', PStr k), (''deleted'', PBool True)])
           (Some ''Image deleted successfully'') 200
       \<and> find (has_key k) (table (snd (delete_image e ev w))) = None"
      by (simp add: del find_filter_not)
  }
  {
    assume bad: "raises e DbDeleteItem = Some exn"
    from db_delete_item_world(4) [OF bad, of k ?w2] d t2
    have "r = Inl exn" and "table w3 = table w" by simp_all
    then show "fst (delete_image e ev w) = internal_error exn
       \<and> table (snd (delete_image e ev w)) = table w"
      by (simp add: del)
  }
  {
    assume s3: "raises e S3DeleteObject = None" "dict_get item ''s3_key'' = PStr sk"
    from s3_delete_object_world(3) [OF s3(1), of "dict_get item ''s3_key''" sk "called DbGetItem w"] s3(2)
    have "bucket ?w2 sk = None" by simp
    with db_delete_item_world(2) [of e k ?w2] d
    show "bucket (snd (delete_image e ev w)) sk = None"
      by (simp add: w3)
  }
qed



lemma img1_path: "or_empty (pathParameters (image_event ''img1'' q)) ''image_id'' = Some ''img1''"
  by (simp add: image_event_def or_empty_def)

lemma img1_found: "find (has_key ''img1'') (table sample_world) = Some img1"
  by (simp add: sample_world_def has_key_def img1_def)

lemma failing_env_raises:
  "raises (failing_env ops) c = (if c \<in> set ops then Some ''boom'' else None)"
  "raises quiet_env c = None"
  by (simp_all add: failing_env_def quiet_env_def)

lemma img1_owner_query:
  "param_get (or_empty (queryStringParameters (image_event ''img1'' (Some [''user_id'' \<mapsto> u])))) ''user_id''
     = PStr u"
  "param_get (or_empty (queryStringParameters (image_event ''img1'' None))) ''user_id'' = PNone"
  "dict_get img1 ''user_id'' = PStr ''user123''"
  by (simp_all add: image_event_def or_empty_def param_get_def opt_str_def img1_def dict_get_def)


text \<open>
  Claim C2, as the code has it. On a delete request that reaches an existing record: a
  \<open>user_id\<close> that is not empty and differs from the record's is answered with 403
  FORBIDDEN after the lookup alone, table and bucket unchanged; without a \<open>user_id\<close>, or
  with an empty one, the check is skipped: the blob delete and the record delete are
  called, and when the record delete succeeds the answer is 200 and the record is gone.
\<close>

theorem delete_authorization:
  assumes "or_empty (pathParameters ev) ''image_id'' = Some k" "k \<noteq> []" "length k \<le> 128"
    and "raises e DbGetItem = None" "find (has_key k) (table w) = Some item"
  shows "(\<forall>u. or_empty (queryStringParameters ev) ''user_id'' = Some u \<and> u \<noteq> []
             \<and> dict_get item ''user_id'' \<noteq> PStr u \<longrightarrow>
           fst (delete_image e ev w) =
             create_error_response 403 (Some ''Not authorized to delete this image'')
               (Some ''FORBIDDEN'')
           \<and> table (snd (delete_image e ev w)) = table w
           \<and> bucket (snd (delete_image e ev w)) = bucket w
           \<and> calls (snd (delete_image e ev w)) = calls w @ [DbGetItem])
     \<and> (or_empty (queryStringParameters ev) ''user_id'' = None
          \<or> or_empty (queryStringParameters ev) ''user_id'' = Some [] \<longrightarrow>
           calls (snd (delete_image e ev w)) = calls w @ [DbGetItem, S3DeleteObject, DbDeleteItem]
           \<and> (raises e DbDeleteItem = None \<longrightarrow>
                statusCode (fst (delete_image e ev w)) = 200
                \<and> find (has_key k) (table (snd (delete_image e ev w))) = None))"
proof (intro conjI allI impI)
  fix u
  assume u: "or_empty (queryStringParameters ev) ''user_id'' = Some u \<and> u \<noteq> []
             \<and> dict_get item ''user_id'' \<noteq> PStr u"
  then have "truthy (param_get (or_empty (queryStringParameters ev)) ''user_id'')
         \<and> dict_get item ''user_id'' \<noteq> param_get (or_empty (queryStringParameters ev)) ''user_id''"
    by (simp add: param_get_def opt_str_def)
  then have d: "delete_image e ev w =
      (create_error_response 403 (Some ''Not authorized to delete this image'')
              (Some ''FORBIDDEN''), called DbGetItem w)"
    unfolding delete_image_found [OF assms] by (rule if_P)
  show "fst (delete_image e ev w) =
             create_error_response 403 (Some ''Not authorized to delete this image'')
               (Some ''FORBIDDEN'')"
    and "table (snd (delete_image e ev w)) = table w"
    and "bucket (snd (delete_image e ev w)) = bucket w"
    and "calls (snd (delete_image e ev w)) = calls w @ [DbGetItem]"
    by (simp_all add: d called_def)
next
  assume "or_empty (queryStringParameters ev) ''user_id'' = None
          \<or> or_empty (queryStringParameters ev) ''user_id'' = Some []"
  then have a: "\<not> (truthy (param_get (or_empty (queryStringParameters ev)) ''user_id'')
         \<and> dict_get item ''user_id'' \<noteq> param_get (or_empty (queryStringParameters ev)) ''user_id'')"
    by (auto simp: param_get_def opt_str_def)
  show "calls (snd (delete_image e ev w)) = calls w @ [DbGetItem, S3DeleteObject, DbDeleteItem]"
    by (rule delete_image_authorized(1) [OF assms a])
  assume ok: "raises e DbDeleteItem = None"
  from delete_image_authorized(2) [OF assms a ok]
  show "statusCode (fst (delete_image e ev w)) = 200"
    and "find (has_key k) (table (snd (delete_image e ev w))) = None"
    by simp_all
qed

theorem delete_authorization_witness:
  "fst (delete_image quiet_env (image_event ''img1'' (Some [''user_id'' \<mapsto> ''otherUser''])) sample_world)
     = create_error_response 403 (Some ''Not authorized to delete this image'') (Some ''FORBIDDEN'')
   \<and> table (snd (delete_image quiet_env (image_event ''img1'' (Some [''user_id'' \<mapsto> ''otherUser''])) sample_world))
     = [img1, img2]
   \<and> calls (snd (delete_image quiet_env (image_event ''img1'' (Some [''user_id'' \<mapsto> ''otherUser''])) sample_world))
     = [DbGetItem]
   \<and> statusCode (fst (delete_image quiet_env (image_event ''img1'' None) sample_world)) = 200
   \<and> find (has_key ''img1'') (table (snd (delete_image quiet_env (image_event ''img1'' None) sample_world))) = None"
proof -
  have l: "''img1'' \<noteq> []" "length ''img1'' \<le> 128" by simp_all
  have q: "or_empty (queryStringParameters (image_event ''img1'' (Some [''user_id'' \<mapsto> ''otherUser''])))
      ''user_id'' = Some ''otherUser''"
    "or_empty (queryStringParameters (image_event ''img1'' None)) ''user_id'' = None"
    by (simp_all add: image_event_def or_empty_def)
  have c: "calls sample_world = []" "table sample_world = [img1, img2]"
    by (simp_all add: sample_world_def)
  from delete_authorization [OF img1_path l failing_env_raises(2) img1_found,
      of "Some [''user_id'' \<mapsto> ''otherUser'']"]
    delete_authorization [OF img1_path l failing_env_raises(2) img1_found, of None]
  show ?thesis
    by (simp add: q c img1_owner_query failing_env_raises)
qed

text \<open>
  The claim as stated fails at the empty \<open>user_id\<close>: it is supplied and differs from the
  owner of \<open>img1\<close>, and the record is deleted with a 200 answer, not refused with 403.
\<close>

theorem delete_authorization_counterexample:
  "or_empty (queryStringParameters (image_event ''img1'' (Some [''user_id'' \<mapsto> []]))) ''user_id'' = Some []
   \<and> dict_get img1 ''user_id'' \<noteq> PStr []
   \<and> find (has_key ''img1'') (table sample_world) = Some img1
   \<and> statusCode (fst (delete_image quiet_env (image_event ''img1'' (Some [''user_id'' \<mapsto> []])) sample_world)) = 200
   \<and> find (has_key ''img1'')
        (table (snd (delete_image quiet_env (image_event ''img1'' (Some [''user_id'' \<mapsto> []])) sample_world))) = None"
proof -
  have l: "''img1'' \<noteq> []" "length ''img1'' \<le> 128" by simp_all
  have a: "\<not> (truthy (param_get (or_empty (queryStringParameters
               (image_event ''img1'' (Some [''user_id'' \<mapsto> []])))) ''user_id'')
         \<and> dict_get img1 ''user_id'' \<noteq> param_get (or_empty (queryStringParameters
               (image_event ''img1'' (Some [''user_id'' \<mapsto> []])))) ''user_id'')"
    by (simp add: img1_owner_query)
  from delete_image_authorized(2) [OF img1_path l failing_env_raises(2) img1_found a failing_env_raises(2)]
  show ?thesis
    by (simp add: img1_found img1_owner_query image_event_def or_empty_def)
qed

section \<open>Properties of reading\<close>

lemma b64encode_hi: "b64encode [104, 105] = ''aGk=''"
  by code_simp

lemma lower_true: "lower ''true'' = ''true''"
  by code_simp

lemma sample_bucket:
  "bucket sample_world ''images/user123/img1.png'' = Some \<lparr>Body = [104, 105], ContentType = ''image/png''\<rparr>"
  by (simp add: sample_world_def)

lemma error_code_download [simp]:
  "error_code (create_response c (PDict [(''image_id'', a), (''filename'', b), (''content_type'', t), (''image_data'', i)])) = PNone"
  by (simp add: error_code_def response_field_def create_response_def)

text \<open>
  What \<open>get_image\<close> does with \<open>download=true\<close> once the identifier is valid, the
  lookup has found the record and the bucket has its blob.
\<close>

lemma get_image_download:
  assumes "or_empty (pathParameters ev) ''image_id'' = Some k" "k \<noteq> []" "length k \<le> 128"
    and "raises e DbGetItem = None" "find (has_key k) (table w) = Some item"
    and "or_empty (queryStringParameters ev) ''download'' = Some d" "lower d = ''true''"
    and "raises e S3GetObject = None" "dict_get item ''s3_key'' = PStr sk" "bucket w sk = Some obj"
  shows "get_image e ev w =
     (create_response 200
        (PDict [(''image_id'', PStr k),
                (''filename'', dict_get item ''filename''),
                (''content_type'', dict_get item ''content_type''),
                (''image_data'', PStr (b64encode (Body obj)))]),
      called S3GetObject (called DbGetItem w))"
proof -
  have pg: "param_get (or_empty (pathParameters ev)) ''image_id'' = PStr k"
    using assms(1) by (simp add: param_get_def opt_str_def)
  have v: "validate_image_id (PStr k) = (True, None)"
    using assms(2,3) by (simp add: validate_image_id_def)
  have g: "db_get_item e k w = (Inr (Some item), called DbGetItem w)"
    using assms(4,5) by (simp add: db_get_item_def)
  have s: "s3_get_object e (PStr sk) (called DbGetItem w) = (Inr obj, called S3GetObject (called DbGetItem w))"
    using assms(8,10) by (simp add: s3_get_object_def called_def)
  show ?thesis
    unfolding get_image_def Let_def pg v
    by (simp add: py_str_def g s assms(6,7,9))
qed

lemma get_image_same:
  assumes "pathParameters ev' = pathParameters ev"
    and "or_empty (queryStringParameters ev') ''download'' = or_empty (queryStringParameters ev) ''download''"
  shows "get_image e ev' w = get_image e ev w"
  unfolding get_image_def Let_def assms ..

lemma get_image_status: "statusCode (fst (get_image e ev w)) \<in> {200, 400, 404, 500}"
  by (auto simp: get_image_def Let_def
      split: prod.splits if_splits sum.splits option.splits s3_error.splits)

lemma get_image_code: "error_code (fst (get_image e ev w)) \<noteq> PStr ''FORBIDDEN''"
  by (auto simp: get_image_def Let_def
      split: prod.splits if_splits sum.splits option.splits s3_error.splits)

text \<open>
  Claim C1, as the code has it. The get operation makes no ownership check. Its answer
  depends on the request through the \<open>image_id\<close> and the \<open>download\<close> parameter alone, so a
  \<open>user_id\<close> in the query string changes nothing, and no answer of the operation is a 403
  or carries the code FORBIDDEN.
\<close>

theorem get_image_no_ownership_check:
  "(pathParameters ev' = pathParameters ev
      \<and> or_empty (queryStringParameters ev') ''download'' = or_empty (queryStringParameters ev) ''download''
      \<longrightarrow> get_image e ev' w = get_image e ev w)
   \<and> statusCode (fst (get_image e ev w)) \<noteq> 403
   \<and> error_code (fst (get_image e ev w)) \<noteq> PStr ''FORBIDDEN''"
proof (intro conjI impI)
  assume "pathParameters ev' = pathParameters ev
      \<and> or_empty (queryStringParameters ev') ''download'' = or_empty (queryStringParameters ev) ''download''"
  then show "get_image e ev' w = get_image e ev w"
    by (intro get_image_same) simp_all
next
  from get_image_status [of e ev w] show "statusCode (fst (get_image e ev w)) \<noteq> 403"
    by auto
next
  show "error_code (fst (get_image e ev w)) \<noteq> PStr ''FORBIDDEN''"
    by (rule get_image_code)
qed

lemma get_img1_download:
  "get_image quiet_env (image_event ''img1'' (Some [''download'' \<mapsto> ''true''])) sample_world =
     (create_response 200
        (PDict [(''image_id'', PStr ''img1''), (''filename'', PStr ''a.png''),
                (''content_type'', PNone), (''image_data'', PStr ''aGk='')]),
      called S3GetObject (called DbGetItem sample_world))"
proof -
  have "get_image quiet_env (image_event ''img1'' (Some [''download'' \<mapsto> ''true''])) sample_world =
     (create_response 200
        (PDict [(''image_id'', PStr ''img1''),
                (''filename'', dict_get img1 ''filename''),
                (''content_type'', dict_get img1 ''content_type''),
                (''image_data'', PStr (b64encode (Body \<lparr>Body = [104, 105], ContentType = ''image/png''\<rparr>)))]),
      called S3GetObject (called DbGetItem sample_world))"
    by (rule get_image_download [OF img1_path _ _ failing_env_raises(2) img1_found _ _ failing_env_raises(2),
          where d = "''true''" and sk = "''images/user123/img1.png''"])
      (simp_all add: image_event_def or_empty_def lower_true img1_def dict_get_def sample_bucket)
  then show ?thesis
    unfolding s3_object.select_convs b64encode_hi
    by (simp add: img1_def dict_get_def)
qed

theorem get_image_no_ownership_check_witness:
  "get_image quiet_env
       (image_event ''img1'' (Some [''user_id'' \<mapsto> ''otherUser'', ''download'' \<mapsto> ''true'']))
       sample_world
     = get_image quiet_env (image_event ''img1'' (Some [''download'' \<mapsto> ''true''])) sample_world
   \<and> statusCode (fst (get_image quiet_env (image_event ''img1'' (Some [''download'' \<mapsto> ''true'']))
        sample_world)) = 200"
  using get_image_no_ownership_check [of
      "image_event ''img1'' (Some [''user_id'' \<mapsto> ''otherUser'', ''download'' \<mapsto> ''true''])"
      "image_event ''img1'' (Some [''download'' \<mapsto> ''true''])" quiet_env sample_world]
  by (simp add: get_img1_download) (simp add: image_event_def or_empty_def)

text \<open>
  The claim as stated fails: \<open>img1\<close> belongs to \<open>user123\<close>, the request names another
  user, and the answer is 200 with the image data, after a read of the bucket.
\<close>

theorem get_image_forbidden_counterexample:
  "dict_get img1 ''user_id'' \<noteq> PStr ''otherUser''
   \<and> find (has_key ''img1'') (table sample_world) = Some img1
   \<and> get_image quiet_env
       (image_event ''img1'' (Some [''user_id'' \<mapsto> ''otherUser'', ''download'' \<mapsto> ''true'']))
       sample_world
     = (create_response 200
          (PDict [(''image_id'', PStr ''img1''), (''filename'', PStr ''a.png''),
                  (''content_type'', PNone), (''image_data'', PStr ''aGk='')]),
        called S3GetObject (called DbGetItem sample_world))"
proof -
  have "get_image quiet_env
       (image_event ''img1'' (Some [''user_id'' \<mapsto> ''otherUser'', ''download'' \<mapsto> ''true'']))
       sample_world
     = get_image quiet_env (image_event ''img1'' (Some [''download'' \<mapsto> ''true''])) sample_world"
    by (rule get_image_same) (simp_all add: image_event_def or_empty_def)
  then show ?thesis
    by (simp add: get_img1_download img1_found img1_owner_query)
qed

end
